theory Spec2Isabelle
  imports Main "HOL-Library.AList"
begin

section \<open>Calorie targets of the week (meal-plan-generator.ts)\<close>

text \<open>
  Numbers: the calorie values of the source are JavaScript numbers; they are modelled as
  mathematical integers, and \<^verbatim>\<open>Math.round\<close> of a quotient as the exact rounding of the
  rational quotient. A date string \<^verbatim>\<open>YYYY-MM-DD\<close> is modelled by the number of the day
  it denotes, so two date strings are equal exactly when they denote the same day.
\<close>

type_synonym date = int

record cheatDay =
  date :: date
  calories :: int

text \<open>\<^verbatim>\<open>userProfile.calorieGoal || 2000\<close>: an absent or zero goal is replaced by 2000.\<close>

definition userNutritionGoals_calories :: "int option \<Rightarrow> int" where
  "userNutritionGoals_calories calorieGoal =
     (case calorieGoal of
        None \<Rightarrow> 2000
      | Some g \<Rightarrow> if g \<noteq> 0 then g else 2000)"

text \<open>
  \<^verbatim>\<open>getCurrentWeekDates\<close> gives the local midnights of today and of the six days after
  it, and the source turns each into the string \<^verbatim>\<open>d.toISOString().split('T')[0]\<close>,
  which is the date of that instant in UTC. Here \<open>today\<close> is the number of the local day
  and \<open>utc\<close> gives, for a local day, the UTC date of its local midnight; it depends on
  the time zone of the process, and the seven dates need not be consecutive or different.
\<close>

definition getCurrentWeekDates :: "(int \<Rightarrow> date) \<Rightarrow> int \<Rightarrow> date list" where
  "getCurrentWeekDates utc today = map (\<lambda>i. utc (today + int i)) [0..<7]"

text \<open>
  \<^verbatim>\<open>Math.round(a / b)\<close> for a positive divisor: the integer nearest to the quotient, a
  half rounded upwards, that is \<open>\<lfloor>a / b + 1 / 2\<rfloor>\<close>.
\<close>

definition Math_round_div :: "int \<Rightarrow> int \<Rightarrow> int" where
  "Math_round_div a b = (2 * a + b) div (2 * b)"

text \<open>\<^verbatim>\<open>Object.fromEntries\<close>: a later entry for a key replaces an earlier one.\<close>

definition fromEntries :: "('k \<times> 'v) list \<Rightarrow> ('k \<rightharpoonup> 'v)" where
  "fromEntries entries = fold (\<lambda>(k, v) m. m(k \<mapsto> v)) entries Map.empty"

text \<open>\<^verbatim>\<open>x || y\<close> on numbers, where \<open>x\<close> may be undefined: zero and undefined are falsy.\<close>

definition or_else :: "int option \<Rightarrow> int \<Rightarrow> int" where
  "or_else x y = (case x of None \<Rightarrow> y | Some v \<Rightarrow> if v \<noteq> 0 then v else y)"

text \<open>
  The normal-day value of \<^verbatim>\<open>generateMealPlanWithAI\<close> (lines 191 to 196), for a non-empty
  cheat-day list.
\<close>

definition normalDayCals :: "cheatDay list \<Rightarrow> int \<Rightarrow> date list \<Rightarrow> int" where
  "normalDayCals cds goal weekDates =
     (let cheatCount = int (length cds);
          totalCheatCals = fold (\<lambda>cd s. s + calories cd) cds 0;
          normalDays = int (length weekDates) - cheatCount
      in if normalDays > 0
         then Math_round_div (int (length weekDates) * goal - totalCheatCals) normalDays
         else goal)"

text \<open>
  The map \<^verbatim>\<open>effectiveCaloriesPerDay\<close> of \<^verbatim>\<open>generateMealPlanWithAI\<close> (lines 184 to 207).
  The first argument is \<^verbatim>\<open>userPreferences.cheatDays\<close>, which may be absent.
\<close>

definition effectiveCaloriesPerDay ::
  "cheatDay list option \<Rightarrow> int \<Rightarrow> date list \<Rightarrow> (date \<rightharpoonup> int)" where
  "effectiveCaloriesPerDay cheatDays goal weekDates =
     (case cheatDays of
        Some cds \<Rightarrow>
          if length cds > 0
          then
            (let cheatMap = fromEntries (map (\<lambda>cd. (date cd, calories cd)) cds);
                 normal = normalDayCals cds goal weekDates
             in fold (\<lambda>d eff. eff(d \<mapsto> or_else (cheatMap d) normal)) weekDates Map.empty)
          else fold (\<lambda>d eff. eff(d \<mapsto> goal)) weekDates Map.empty
      | None \<Rightarrow> fold (\<lambda>d eff. eff(d \<mapsto> goal)) weekDates Map.empty)"

section \<open>Reconciling the generated days (meal-plan-generator.ts, lines 264 to 274)\<close>

text \<open>
  An entry of a JSON array that the worker treats as an object: an object, \<^verbatim>\<open>null\<close>, or a
  primitive value (with its display text, such as \<^verbatim>\<open>number '5'\<close>). Reading a property of
  \<^verbatim>\<open>null\<close> and writing a property of \<^verbatim>\<open>null\<close> or of a primitive value throw a TypeError
  (the module is in strict mode); reading a property of a primitive value gives
  \<^verbatim>\<open>undefined\<close>. The messages are those of the V8 engine.
\<close>

datatype 'a entry = Object 'a | Null | Primitive string

text \<open>
  The value of the \<open>image\<close> field of a meal: a URL, or the member of that name which every
  object inherits (see \<open>defaultImage\<close> below).
\<close>

datatype image_value = Url string | Inherited string

text \<open>
  A meal and a day of the generated document, with the fields the worker reads or writes.
  An absent string field is the empty string (both are falsy in the source); \<open>meals\<close> is
  \<open>None\<close> when \<^verbatim>\<open>day.meals && Array.isArray(day.meals)\<close> fails.
\<close>

record meal =
  meal_type :: string
  meal_name :: string
  image_search_keywords :: "string list"
  image :: "image_value option"

record day =
  day_date :: "date option"
  daily_calorie_target :: "int option"
  isCheatDay :: bool
  meals :: "meal entry list option"

text \<open>
  The body of the \<^verbatim>\<open>forEach\<close>: \<^verbatim>\<open>weekDates[index]\<close> is undefined from the length of
  \<open>weekDates\<close> on, the assignment \<^verbatim>\<open>day.date = dateStr\<close> throws for an entry that is no
  object, and the target is written under the guard
  \<^verbatim>\<open>if (effectiveCaloriesPerDay[dateStr])\<close>.
\<close>

definition postProcessDay ::
  "date list \<Rightarrow> (date \<rightharpoonup> int) \<Rightarrow> nat \<Rightarrow> day entry \<Rightarrow> string + day entry" where
  "postProcessDay weekDates eff index e =
     (if index < length weekDates
      then
        (case e of
           Null \<Rightarrow> Inl ''Cannot set properties of null (setting 'date')''
         | Primitive v \<Rightarrow> Inl (''Cannot create property 'date' on '' @ v)
         | Object dy \<Rightarrow>
             (let dateStr = weekDates ! index;
                  dy1 = dy\<lparr>day_date := Some dateStr\<rparr>
              in case eff dateStr of
                   Some v \<Rightarrow> if v \<noteq> 0 then Inr (Object (dy1\<lparr>daily_calorie_target := Some v\<rparr>))
                             else Inr (Object dy1)
                 | None \<Rightarrow> Inr (Object dy1)))
      else Inr e)"

text \<open>The results of a loop whose body may throw: the first error ends the loop.\<close>

fun collect :: "(string + 'a) list \<Rightarrow> string + 'a list" where
  "collect [] = Inr []"
| "collect (r # rs) =
     (case r of
        Inl msg \<Rightarrow> Inl msg
      | Inr x \<Rightarrow> (case collect rs of Inl msg \<Rightarrow> Inl msg | Inr xs \<Rightarrow> Inr (x # xs)))"

definition postProcessDays ::
  "date list \<Rightarrow> (date \<rightharpoonup> int) \<Rightarrow> day entry list \<Rightarrow> string + day entry list" where
  "postProcessDays weekDates eff days =
     collect (map (\<lambda>(index, e). postProcessDay weekDates eff index e) (enumerate 0 days))"

section \<open>External calls and the process-wide state\<close>

text \<open>
  Every call to an external collaborator is recorded, oldest first. \<open>usedImageUrls\<close> is the
  module-level set of meal-plan-generator.ts (line 22): one per worker process.
\<close>

datatype call =
    Heartbeat string
  | ProfileRead string
  | HistoryRead string
  | PlanGeneration
  | ImageSearch string
  | CardGeneration
  | ArtifactWrite string string "day entry list"
  | Notification string string
  | CompleteJob string string
  | FailJob string string

record world =
  usedImageUrls :: "string set"
  calls :: "call list"

section \<open>Plan generation (meal-plan-generator.ts, lines 165 to 277)\<close>

text \<open>
  What the provider call gives: it throws, or it returns a content that may be absent.
  \<^verbatim>\<open>JSON.parse\<close> is a parameter; it throws, gives \<^verbatim>\<open>null\<close> (reading \<^verbatim>\<open>.days\<close> of it
  throws a TypeError with the engine's message), or gives a value whose \<^verbatim>\<open>days\<close> is
  falsy (absent included), truthy but no array, or an array of days.
\<close>

datatype days_field = DaysFalsy | DaysNotArray | DaysArray "day entry list"

datatype parsed = ParseThrows string | ParsedNull string | ParsedValue days_field

datatype completion = CompletionThrows string | Content "string option"

definition generateMealPlanWithAI ::
  "cheatDay list option \<Rightarrow> int option \<Rightarrow> (int \<Rightarrow> date) \<Rightarrow> int \<Rightarrow> completion \<Rightarrow> (string \<Rightarrow> parsed) \<Rightarrow> world
     \<Rightarrow> (string + day entry list) \<times> world" where
  "generateMealPlanWithAI cheatDays calorieGoal utc today completion JSON_parse w =
     (let goal = userNutritionGoals_calories calorieGoal;
          weekDates = getCurrentWeekDates utc today;
          eff = effectiveCaloriesPerDay cheatDays goal weekDates;
          w1 = w\<lparr>calls := calls w @ [PlanGeneration]\<rparr>
      in case completion of
           CompletionThrows msg \<Rightarrow> (Inl msg, w1)
         | Content c \<Rightarrow>
             (case c of
                None \<Rightarrow> (Inl ''OpenAI returned no content'', w1)
              | Some content \<Rightarrow>
                  if content = [] then (Inl ''OpenAI returned no content'', w1)
                  else
                    (case JSON_parse content of
                       ParseThrows msg \<Rightarrow> (Inl (''Failed to parse AI response: '' @ msg), w1)
                     | ParsedNull msg \<Rightarrow> (Inl msg, w1)
                     | ParsedValue df \<Rightarrow>
                         (case df of
                            DaysFalsy \<Rightarrow> (Inl ''Invalid AI response: missing days array'', w1)
                          | DaysNotArray \<Rightarrow> (Inl ''Invalid AI response: missing days array'', w1)
                          | DaysArray days \<Rightarrow> (postProcessDays weekDates eff days, w1)))))"

section \<open>Meal images (meal-plan-generator.ts, lines 441 to 535)\<close>

definition genericFoodImage :: string where
  "genericFoodImage = ''https://images.unsplash.com/photo-1512621776951-a57141f2eefd?q=80&w=800&auto=format&fit=crop''"

definition defaultImagesByType :: "(string \<times> string) list" where
  "defaultImagesByType =
     [(''Breakfast'', ''https://images.unsplash.com/photo-1533089860892-a7c6f0a88666?q=80&w=800&auto=format&fit=crop''),
      (''Lunch'', ''https://images.unsplash.com/photo-1547496502-affa22d38842?q=80&w=800&auto=format&fit=crop''),
      (''Dinner'', ''https://images.unsplash.com/photo-1576402187878-974f70c890a5?q=80&w=800&auto=format&fit=crop''),
      (''Snack'', ''https://images.unsplash.com/photo-1482049016688-2d3e1b311543?q=80&w=800&auto=format&fit=crop'')]"

text \<open>
  The names of the members that every object inherits from \<^verbatim>\<open>Object.prototype\<close>. The
  lookup \<^verbatim>\<open>defaultImagesByType[mealType]\<close> in the object literal gives the URL of the
  table for the four meal types, the inherited member (a function or an object, which is
  truthy) for these names, and \<^verbatim>\<open>undefined\<close> otherwise.
\<close>

definition objectPrototypeMembers :: "string list" where
  "objectPrototypeMembers =
     [''constructor'', ''__defineGetter__'', ''__defineSetter__'', ''hasOwnProperty'',
      ''__lookupGetter__'', ''__lookupSetter__'', ''isPrototypeOf'', ''propertyIsEnumerable'',
      ''toString'', ''valueOf'', ''__proto__'', ''toLocaleString'']"

text \<open>\<^verbatim>\<open>defaultImagesByType[mealType] || genericFoodImage\<close>\<close>

definition defaultImage :: "string \<Rightarrow> image_value" where
  "defaultImage mealType =
     (case map_of defaultImagesByType mealType of
        Some u \<Rightarrow> Url u
      | None \<Rightarrow> if mealType \<in> set objectPrototypeMembers then Inherited mealType
                else Url genericFoodImage)"

text \<open>\<^verbatim>\<open>mealName.split(' ')\<close> and \<^verbatim>\<open>.join(' ')\<close>\<close>

fun split_space :: "string \<Rightarrow> string list" where
  "split_space [] = [[]]"
| "split_space (c # cs) =
     (if c = CHR '' '' then [] # split_space cs
      else (case split_space cs of w # ws \<Rightarrow> (c # w) # ws | [] \<Rightarrow> [[c]]))"

definition join_space :: "string list \<Rightarrow> string" where
  "join_space ws = (case ws of [] \<Rightarrow> [] | w # rest \<Rightarrow> foldl (\<lambda>acc x. acc @ '' '' @ x) w rest)"

text \<open>\<^verbatim>\<open>aiKeywords?.[0] || mealName.split(' ').slice(0, 2).join(' ')\<close>, then the query.\<close>

definition searchQuery :: "string \<Rightarrow> string list \<Rightarrow> string" where
  "searchQuery mealName aiKeywords =
     (let fromName = join_space (take 2 (split_space mealName));
          searchTerm = (case aiKeywords of
                          [] \<Rightarrow> fromName
                        | k # _ \<Rightarrow> if k \<noteq> [] then k else fromName)
      in searchTerm @ '' food dish'')"

text \<open>
  The answer of the image search to one request: \<^verbatim>\<open>fetch\<close> throws, the status is not ok,
  the body is no JSON, or the body has a \<^verbatim>\<open>results\<close> field (possibly absent). An entry of
  the results is \<^verbatim>\<open>image.urls?.regular\<close>, possibly absent. The provider may answer
  depending on all calls made before and on the query.
\<close>

datatype response = FetchThrows | NotOk | JsonThrows | Results "string option list option"

type_synonym imageProvider = "call list \<Rightarrow> string \<Rightarrow> response"

text \<open>The loop over \<^verbatim>\<open>data.results\<close> (lines 519 to 524): the first usable URL not used yet.\<close>

fun firstUnused :: "string option list \<Rightarrow> string set \<Rightarrow> string option" where
  "firstUnused [] used = None"
| "firstUnused (img # imgs) used =
     (case img of
        Some regular \<Rightarrow>
          if regular \<noteq> [] \<and> regular \<notin> used then Some regular else firstUnused imgs used
      | None \<Rightarrow> firstUnused imgs used)"

text \<open>
  \<^verbatim>\<open>getMealImageUrl\<close>. The access key counts as absent when it is undefined or empty
  (\<^verbatim>\<open>!this.unsplashAccessKey\<close>). Every failure of the search is caught inside and
  gives the default image.
\<close>

definition getMealImageUrl ::
  "string option \<Rightarrow> imageProvider \<Rightarrow> string \<Rightarrow> string \<Rightarrow> string list \<Rightarrow> world
     \<Rightarrow> image_value \<times> world" where
  "getMealImageUrl accessKey search mealName mealType aiKeywords w =
     (if accessKey = None \<or> accessKey = Some [] then (defaultImage mealType, w)
      else
        (let query = searchQuery mealName aiKeywords;
             answer = search (calls w) query;
             w1 = w\<lparr>calls := calls w @ [ImageSearch query]\<rparr>
         in case answer of
              Results (Some results) \<Rightarrow>
                (case firstUnused results (usedImageUrls w1) of
                   Some regular \<Rightarrow>
                     (Url regular, w1\<lparr>usedImageUrls := insert regular (usedImageUrls w1)\<rparr>)
                 | None \<Rightarrow> (defaultImage mealType, w1))
            | _ \<Rightarrow> (defaultImage mealType, w1)))"

text \<open>
  \<^verbatim>\<open>fetchMealImages\<close>. The arguments of \<^verbatim>\<open>getMealImageUrl\<close> for a meal, if the meal gets
  an image at all: on a cheat day the meals of type \<^verbatim>\<open>"Cheat Day"\<close>, on another day the
  meals with a name and a type. The \<^verbatim>\<open>catch\<close> blocks of \<^verbatim>\<open>fetchMealImages\<close> are not
  reached, since \<^verbatim>\<open>getMealImageUrl\<close> does not throw, and its argument is the array of
  days that plan generation has checked. The tests of \<^verbatim>\<open>meal.type\<close>, \<^verbatim>\<open>meal.name\<close> and
  \<^verbatim>\<open>day.isCheatDay\<close> are outside every \<^verbatim>\<open>try\<close>: they throw for a \<^verbatim>\<open>null\<close> entry, and
  find nothing in a primitive value.
\<close>

definition imageRequest :: "bool \<Rightarrow> meal \<Rightarrow> (string \<times> string \<times> string list) option" where
  "imageRequest cheat m =
     (if cheat
      then (if meal_type m = ''Cheat Day''
            then Some (''Celebration feast gourmet'', ''Cheat Meal'',
                       [''celebration'', ''feast'', ''indulgent food''])
            else None)
      else (if meal_name m \<noteq> [] \<and> meal_type m \<noteq> []
            then Some (meal_name m, meal_type m, image_search_keywords m)
            else None))"

fun fetchMeals ::
  "string option \<Rightarrow> imageProvider \<Rightarrow> bool \<Rightarrow> meal entry list \<Rightarrow> world
     \<Rightarrow> (string + meal entry list) \<times> world" where
  "fetchMeals accessKey search cheat [] w = (Inr [], w)"
| "fetchMeals accessKey search cheat (Null # es) w =
     (Inl (if cheat then ''Cannot read properties of null (reading 'type')''
           else ''Cannot read properties of null (reading 'name')''), w)"
| "fetchMeals accessKey search cheat (Primitive v # es) w =
     (case fetchMeals accessKey search cheat es w of
        (Inl msg, w') \<Rightarrow> (Inl msg, w')
      | (Inr es', w') \<Rightarrow> (Inr (Primitive v # es'), w'))"
| "fetchMeals accessKey search cheat (Object m # es) w =
     (case imageRequest cheat m of
        None \<Rightarrow>
          (case fetchMeals accessKey search cheat es w of
             (Inl msg, w') \<Rightarrow> (Inl msg, w')
           | (Inr es', w') \<Rightarrow> (Inr (Object m # es'), w'))
      | Some (mealName, mealType, aiKeywords) \<Rightarrow>
          (case getMealImageUrl accessKey search mealName mealType aiKeywords w of
             (img, w1) \<Rightarrow>
               (case fetchMeals accessKey search cheat es w1 of
                  (Inl msg, w') \<Rightarrow> (Inl msg, w')
                | (Inr es', w') \<Rightarrow> (Inr (Object (m\<lparr>image := Some img\<rparr>) # es'), w'))))"

fun fetchMealImages ::
  "string option \<Rightarrow> imageProvider \<Rightarrow> day entry list \<Rightarrow> world
     \<Rightarrow> (string + day entry list) \<times> world" where
  "fetchMealImages accessKey search [] w = (Inr [], w)"
| "fetchMealImages accessKey search (Null # ds) w =
     (Inl ''Cannot read properties of null (reading 'isCheatDay')'', w)"
| "fetchMealImages accessKey search (Primitive v # ds) w =
     (case fetchMealImages accessKey search ds w of
        (Inl msg, w') \<Rightarrow> (Inl msg, w')
      | (Inr ds', w') \<Rightarrow> (Inr (Primitive v # ds'), w'))"
| "fetchMealImages accessKey search (Object dy # ds) w =
     (case meals dy of
        None \<Rightarrow>
          (case fetchMealImages accessKey search ds w of
             (Inl msg, w') \<Rightarrow> (Inl msg, w')
           | (Inr ds', w') \<Rightarrow> (Inr (Object dy # ds'), w'))
      | Some ms \<Rightarrow>
          (case fetchMeals accessKey search (isCheatDay dy) ms w of
             (Inl msg, w1) \<Rightarrow> (Inl msg, w1)
           | (Inr ms', w1) \<Rightarrow>
               (case fetchMealImages accessKey search ds w1 of
                  (Inl msg, w') \<Rightarrow> (Inl msg, w')
                | (Inr ds', w') \<Rightarrow> (Inr (Object (dy\<lparr>meals := Some ms'\<rparr>) # ds'), w'))))"

section \<open>One job (job processor, lines 115 to 216; meal-plan-generator.ts, lines 45 to 96)\<close>

record MealPlanJobPayload =
  userId :: string
  planId :: string
  cheatDays :: "cheatDay list option"

record BackgroundJob =
  job_id :: string
  job_type :: string
  payload :: MealPlanJobPayload

text \<open>
  What the collaborators answer during one job: the calorie goal of the profile (absent
  when the profile read fails or has none), the UTC date of a local midnight, the current
  local day, the provider's answer to the
  plan request, \<^verbatim>\<open>JSON.parse\<close>, the image-search key and provider, and the error of the
  artifact update, if any.
\<close>

record collaborators =
  profile_calorieGoal :: "int option"
  isoDate :: "int \<Rightarrow> date"
  clock_today :: int
  plan_completion :: completion
  JSON_parse :: "string \<Rightarrow> parsed"
  unsplashAccessKey :: "string option"
  imageSearch :: imageProvider
  saveError :: "string option"

text \<open>
  \<^verbatim>\<open>generateMealPlan\<close>: clear the image set (\<^verbatim>\<open>usedImageUrls.clear()\<close>), read profile and history (both degrade to
  defaults), generate the plan, fetch the images, generate the diet cards (which degrade
  to an empty list). An error of the plan generation or of the image stage is thrown on.
\<close>

definition clearImageCache :: "world \<Rightarrow> world" where
  "clearImageCache w = w\<lparr>usedImageUrls := {}\<rparr>"

definition generateMealPlan ::
  "collaborators \<Rightarrow> MealPlanJobPayload \<Rightarrow> world \<Rightarrow> (string + day entry list) \<times> world" where
  "generateMealPlan env p w =
     (let w1 = clearImageCache w;
          w2 = w1\<lparr>calls := calls w1 @ [ProfileRead (userId p), HistoryRead (userId p)]\<rparr>
      in case generateMealPlanWithAI (cheatDays p) (profile_calorieGoal env) (isoDate env) (clock_today env)
                (plan_completion env) (JSON_parse env) w2 of
           (Inl msg, w3) \<Rightarrow> (Inl msg, w3)
         | (Inr aiResponse, w3) \<Rightarrow>
             (case fetchMealImages (unsplashAccessKey env) (imageSearch env) aiResponse w3 of
                (Inl msg, w4) \<Rightarrow> (Inl msg, w4)
              | (Inr withImages, w4) \<Rightarrow>
                  (Inr withImages, w4\<lparr>calls := calls w4 @ [CardGeneration]\<rparr>)))"

text \<open>
  \<^verbatim>\<open>processMealPlanJob\<close>. The heartbeats of the 30 second timer depend on real time and
  are left out; the first heartbeat is part of \<^verbatim>\<open>processJob\<close>.
\<close>

definition processMealPlanJob ::
  "collaborators \<Rightarrow> BackgroundJob \<Rightarrow> world \<Rightarrow> (string + unit) \<times> world" where
  "processMealPlanJob env job w =
     (let p = payload job
      in case generateMealPlan env p w of
           (Inl msg, w1) \<Rightarrow> (Inl msg, w1)
         | (Inr mealPlanResult, w1) \<Rightarrow>
             (let w2 = w1\<lparr>calls := calls w1 @ [ArtifactWrite (planId p) (userId p) mealPlanResult]\<rparr>
              in case saveError env of
                   Some msg \<Rightarrow> (Inl (''Failed to save meal plan: '' @ msg), w2)
                 | None \<Rightarrow>
                     (Inr (), w2\<lparr>calls := calls w2 @
                        [Notification (userId p) (planId p), CompleteJob (job_id job) (planId p)]\<rparr>)))"

text \<open>\<^verbatim>\<open>processJob\<close>: any error of the job is caught and reported with its message.\<close>

definition processJob :: "collaborators \<Rightarrow> BackgroundJob \<Rightarrow> world \<Rightarrow> world" where
  "processJob env job w =
     (let w1 = w\<lparr>calls := calls w @ [Heartbeat (job_id job)]\<rparr>;
          outcome = (if job_type job = ''meal_plan_generation''
                     then processMealPlanJob env job w1
                     else (Inl (''Unknown job type: '' @ job_type job), w1))
      in case outcome of
           (Inr _, w2) \<Rightarrow> w2
         | (Inl msg, w2) \<Rightarrow> w2\<lparr>calls := calls w2 @ [FailJob (job_id job) msg]\<rparr>)"

section \<open>The polling loop (job processor, lines 34 to 113)\<close>

record WorkerConfig =
  workerId :: string
  pollIntervalMs :: int
  maxConcurrentJobs :: int

text \<open>
  \<open>activeJobs\<close> is the \<^verbatim>\<open>Map\<close> from job identifiers to promises, as an association list
  with one entry for each key. A promise stored there is never \<^verbatim>\<open>undefined\<close>.
\<close>

datatype promise = Promise

record JobProcessor =
  activeJobs :: "(string \<times> promise) list"
  isShuttingDown :: bool

definition is_undefined :: "promise \<Rightarrow> bool" where
  "is_undefined p = False"

text \<open>The answer of the remote procedure \<^verbatim>\<open>get_next_background_job\<close> to one claim.\<close>

datatype claim = RpcData "BackgroundJob list option" | RpcError string | RpcThrows string

datatype action = ClaimAttempt | LogError string | Dispatch string | Sleep int

text \<open>
  \<^verbatim>\<open>getNextJob\<close>, given the answer to its call: the job, if any, and what it logs.
\<close>

definition getNextJob :: "claim \<Rightarrow> BackgroundJob option \<times> action list" where
  "getNextJob c =
     (case c of
        RpcError e \<Rightarrow> (None, [LogError ''Error getting next job''])
      | RpcThrows msg \<Rightarrow> (None, [LogError ''Exception getting next job''])
      | RpcData None \<Rightarrow> (None, [])
      | RpcData (Some []) \<Rightarrow> (None, [])
      | RpcData (Some (j # _)) \<Rightarrow> (Some j, []))"

text \<open>
  The settling of a dispatched job, \<open>True\<close> when \<^verbatim>\<open>processJob\<close> resolved and \<open>False\<close> when it
  rejected: the \<^verbatim>\<open>catch\<close> handler logs a rejection and the \<^verbatim>\<open>finally\<close> handler deletes
  the entry (lines 56 to 66).
\<close>

definition settle :: "JobProcessor \<Rightarrow> string \<Rightarrow> bool \<Rightarrow> JobProcessor \<times> action list" where
  "settle s jobId resolved =
     (s\<lparr>activeJobs := AList.delete jobId (activeJobs s)\<rparr>,
      if resolved then [] else [LogError ''Job processing failed''])"

fun settleAll :: "JobProcessor \<Rightarrow> (string \<times> bool) list \<Rightarrow> JobProcessor \<times> action list" where
  "settleAll s [] = (s, [])"
| "settleAll s ((jobId, resolved) # rest) =
     (case settle s jobId resolved of
        (s1, log1) \<Rightarrow> (case settleAll s1 rest of (s2, log2) \<Rightarrow> (s2, log1 @ log2)))"

text \<open>
  One pass of the body of the \<^verbatim>\<open>while\<close> loop of \<^verbatim>\<open>start\<close>: the new state and what the
  pass did. The pass is given what the Job Source answers if it is asked, and the jobs
  that settle while that answer is awaited (\<open>meanwhile\<close>): the size of the map is compared
  before the claim, and the job is registered after it.
\<close>

definition loopBody ::
  "WorkerConfig \<Rightarrow> JobProcessor \<Rightarrow> claim \<Rightarrow> (string \<times> bool) list \<Rightarrow> JobProcessor \<times> action list" where
  "loopBody config s c meanwhile =
     (let (s1, acts) =
            (if int (length (activeJobs s)) < maxConcurrentJobs config
             then (case settleAll s meanwhile of
                     (s0, settled) \<Rightarrow>
                       (case getNextJob c of
                          (Some job, log) \<Rightarrow>
                            (s0\<lparr>activeJobs := AList.update (job_id job) Promise (activeJobs s0)\<rparr>,
                             ClaimAttempt # settled @ log @ [Dispatch (job_id job)])
                        | (None, log) \<Rightarrow> (s0, ClaimAttempt # settled @ log)))
             else (s, []));
          completedJobs = filter (\<lambda>(jobId, p). is_undefined p) (activeJobs s1);
          s2 = s1\<lparr>activeJobs := fold (\<lambda>(jobId, p). AList.delete jobId) completedJobs (activeJobs s1)\<rparr>
      in (s2, acts @ [Sleep (pollIntervalMs config)]))"

text \<open>
  What happens to the processor: a pass of the loop (none once shutdown has begun), a pass
  whose body throws outside \<^verbatim>\<open>getNextJob\<close> before a job is registered (the \<^verbatim>\<open>catch\<close> of
  lines 81 to 85), the settling of a dispatched job between two passes, and a termination
  signal. A signal that arrives during a pass acts as one after the pass, since the pass
  reads \<open>isShuttingDown\<close> only at its start.
\<close>

datatype input =
    Pass claim "(string \<times> bool) list"
  | PassThrows string
  | Settled string bool
  | Signal

definition step :: "WorkerConfig \<Rightarrow> JobProcessor \<Rightarrow> input \<Rightarrow> JobProcessor \<times> action list" where
  "step config s i =
     (case i of
        Pass c meanwhile \<Rightarrow> if isShuttingDown s then (s, []) else loopBody config s c meanwhile
      | PassThrows msg \<Rightarrow>
          if isShuttingDown s then (s, [])
          else (s, [LogError ''Error in main polling loop'', Sleep 5000])
      | Settled jobId resolved \<Rightarrow> settle s jobId resolved
      | Signal \<Rightarrow> (s\<lparr>isShuttingDown := True\<rparr>, []))"


definition newJobProcessor :: JobProcessor where
  "newJobProcessor = \<lparr>activeJobs = [], isShuttingDown = False\<rparr>"

section \<open>Observing the images of a plan\<close>

text \<open>
  The URLs of the fixed images of the fallback path; the image values of the meals of a
  plan that \<^verbatim>\<open>fetchMealImages\<close> assigns an image to, in the order of the plan; and, of a
  list of image values, the URLs that are none of the fixed images.
\<close>

definition fallbackImages :: "string set" where
  "fallbackImages = insert genericFoodImage (snd ` set defaultImagesByType)"

definition entryImage :: "bool \<Rightarrow> meal entry \<Rightarrow> image_value option" where
  "entryImage cheat e =
     (case e of
        Object m \<Rightarrow> if imageRequest cheat m \<noteq> None then image m else None
      | Null \<Rightarrow> None
      | Primitive v \<Rightarrow> None)"

definition mealImages :: "bool \<Rightarrow> meal entry list \<Rightarrow> image_value list" where
  "mealImages cheat es = List.map_filter (entryImage cheat) es"

definition assignedImages :: "day entry list \<Rightarrow> image_value list" where
  "assignedImages days =
     concat (map (\<lambda>e. case e of
                         Object dy \<Rightarrow>
                           (case meals dy of None \<Rightarrow> [] | Some ms \<Rightarrow> mealImages (isCheatDay dy) ms)
                       | Null \<Rightarrow> []
                       | Primitive v \<Rightarrow> []) days)"

definition searchUrls :: "image_value list \<Rightarrow> string list" where
  "searchUrls imgs =
     List.map_filter
       (\<lambda>img. case img of
                 Url u \<Rightarrow> if u \<notin> fallbackImages then Some u else None
               | Inherited n \<Rightarrow> None) imgs"

section \<open>Example inputs\<close>

text \<open>
  A process in UTC, where the date of a local midnight is the local day; and a process in
  a zone that is at UTC until day 3 and one hour ahead of it afterwards, where the local
  midnights of days 3 and 4 fall on the same UTC date.
\<close>

definition utcDates :: "int \<Rightarrow> date" where
  "utcDates n = n"

definition clockChangeDates :: "int \<Rightarrow> date" where
  "clockChangeDates n = (if n \<le> 3 then n else n - 1)"

text \<open>A week in which every day from day 0 on is a cheat day of 3000 kcal.\<close>

definition sevenCheatDays :: "cheatDay list" where
  "sevenCheatDays = map (\<lambda>i. \<lparr>date = int i, calories = 3000\<rparr>) [0..<7]"

text \<open>
  A generated day with a calorie target of 1800, a provider answer with two such days, and
  a fresh process state.
\<close>

definition generatedDay :: day where
  "generatedDay = \<lparr>day_date = None, daily_calorie_target = Some 1800, isCheatDay = False, meals = None\<rparr>"

definition parseTwoDays :: "string \<Rightarrow> parsed" where
  "parseTwoDays content = ParsedValue (DaysArray [Object generatedDay, Object generatedDay])"

definition freshWorld :: world where
  "freshWorld = \<lparr>usedImageUrls = {}, calls = []\<rparr>"

text \<open>
  Two breakfasts of one day, and the same breakfast twice; an image search that always
  fails, and one that always offers the same two photos.
\<close>

definition oatmeal :: meal where
  "oatmeal = \<lparr>meal_type = ''Breakfast'', meal_name = ''Oatmeal'', image_search_keywords = [],
              image = None\<rparr>"

definition pancakes :: meal where
  "pancakes = \<lparr>meal_type = ''Breakfast'', meal_name = ''Pancakes'', image_search_keywords = [],
               image = None\<rparr>"

definition dayOf :: "meal list \<Rightarrow> day entry" where
  "dayOf ms = Object \<lparr>day_date = None, daily_calorie_target = None, isCheatDay = False,
                     meals = Some (map Object ms)\<rparr>"

definition searchFails :: imageProvider where
  "searchFails log query = FetchThrows"

definition twoPhotos :: imageProvider where
  "twoPhotos log query = Results (Some [Some ''https://photos/a'', Some ''https://photos/b''])"

definition onePhoto :: imageProvider where
  "onePhoto log query = Results (Some [Some ''https://photos/a''])"

text \<open>A worker configuration with the default poll interval and limit.\<close>

definition defaultConfig :: WorkerConfig where
  "defaultConfig = \<lparr>workerId = ''meal-plan-worker-1'', pollIntervalMs = 1000, maxConcurrentJobs = 3\<rparr>"

text \<open>A job for user \<open>u1\<close> and plan \<open>p1\<close>, and collaborators whose plan answer lacks the days.\<close>

definition job1 :: BackgroundJob where
  "job1 = \<lparr>job_id = ''j1'', job_type = ''meal_plan_generation'',
           payload = \<lparr>userId = ''u1'', planId = ''p1'', cheatDays = None\<rparr>\<rparr>"

definition parseNoDays :: "string \<Rightarrow> parsed" where
  "parseNoDays content = ParsedValue DaysFalsy"

definition noDaysCollaborators :: collaborators where
  "noDaysCollaborators =
     \<lparr>profile_calorieGoal = None, isoDate = utcDates, clock_today = 0, plan_completion = Content (Some ''{}''),
      JSON_parse = parseNoDays, unsplashAccessKey = None, imageSearch = searchFails,
      saveError = None\<rparr>"

text \<open>Collaborators without an image-search key whose plan answer has one day of two breakfasts.\<close>

definition parseBreakfasts :: "string \<Rightarrow> parsed" where
  "parseBreakfasts content = ParsedValue (DaysArray [dayOf [oatmeal, pancakes]])"

definition noKeyCollaborators :: collaborators where
  "noKeyCollaborators =
     \<lparr>profile_calorieGoal = None, isoDate = utcDates, clock_today = 0, plan_completion = Content (Some ''{}''),
      JSON_parse = parseBreakfasts, unsplashAccessKey = None, imageSearch = twoPhotos,
      saveError = None\<rparr>"

text \<open>Collaborators with an image-search key whose plan answer has the same meal twice.\<close>

definition parseSameMealTwice :: "string \<Rightarrow> parsed" where
  "parseSameMealTwice content = ParsedValue (DaysArray [dayOf [oatmeal, oatmeal]])"

definition keyCollaborators :: collaborators where
  "keyCollaborators =
     \<lparr>profile_calorieGoal = None, isoDate = utcDates, clock_today = 0, plan_completion = Content (Some ''{}''),
      JSON_parse = parseSameMealTwice, unsplashAccessKey = Some ''key'', imageSearch = twoPhotos,
      saveError = None\<rparr>"

text \<open>The plans that the two runs above return.\<close>

definition twoDefaultBreakfasts :: "day entry list" where
  "twoDefaultBreakfasts =
     [Object \<lparr>day_date = Some 0, daily_calorie_target = Some 2000, isCheatDay = False,
       meals = Some [Object (oatmeal\<lparr>image := Some (defaultImage ''Breakfast'')\<rparr>),
                     Object (pancakes\<lparr>image := Some (defaultImage ''Breakfast'')\<rparr>)]\<rparr>]"

definition twoPhotoBreakfasts :: "day entry list" where
  "twoPhotoBreakfasts =
     [Object \<lparr>day_date = Some 0, daily_calorie_target = Some 2000, isCheatDay = False,
       meals = Some [Object (oatmeal\<lparr>image := Some (Url ''https://photos/a'')\<rparr>),
                     Object (oatmeal\<lparr>image := Some (Url ''https://photos/b'')\<rparr>)]\<rparr>]"

text \<open>
  Collaborators without an image-search key whose plan answer has one day with a breakfast
  and a meal of type \<^verbatim>\<open>constructor\<close>, and the plan that this run returns.
\<close>

definition surprise :: meal where
  "surprise = \<lparr>meal_type = ''constructor'', meal_name = ''Surprise'', image_search_keywords = [],
               image = None\<rparr>"

definition parseSurprise :: "string \<Rightarrow> parsed" where
  "parseSurprise content = ParsedValue (DaysArray [dayOf [oatmeal, surprise]])"

definition surpriseCollaborators :: collaborators where
  "surpriseCollaborators =
     \<lparr>profile_calorieGoal = None, isoDate = utcDates, clock_today = 0,
      plan_completion = Content (Some ''{}''), JSON_parse = parseSurprise,
      unsplashAccessKey = None, imageSearch = twoPhotos, saveError = None\<rparr>"

definition surprisePlan :: "day entry list" where
  "surprisePlan =
     [Object \<lparr>day_date = Some 0, daily_calorie_target = Some 2000, isCheatDay = False,
       meals = Some [Object (oatmeal\<lparr>image := Some (Url ''https://images.unsplash.com/photo-1533089860892-a7c6f0a88666?q=80&w=800&auto=format&fit=crop'')\<rparr>),
                     Object (surprise\<lparr>image := Some (Inherited ''constructor'')\<rparr>)]\<rparr>]"

text \<open>A provider answer whose second day is \<^verbatim>\<open>null\<close>.\<close>

definition parseNullDay :: "string \<Rightarrow> parsed" where
  "parseNullDay content = ParsedValue (DaysArray [Object generatedDay, Null])"

section \<open>Calorie targets: basic facts\<close>

lemma fold_upd_lookup:
  "fold (\<lambda>d eff. eff(d \<mapsto> f d)) ds m0 k = (if k \<in> set ds then Some (f k) else m0 k)"
  by (induction ds arbitrary: m0) auto

lemma fromEntries_map_of: "fromEntries es = map_of (rev es)"
proof -
  have "fold (\<lambda>(k, v) m. m(k \<mapsto> v)) es m0 = m0 ++ map_of (rev es)" for m0 :: "'a \<rightharpoonup> 'b"
    by (induction es arbitrary: m0) (auto simp: map_add_upd_left fun_eq_iff map_add_def split: option.splits)
  then show ?thesis by (simp add: fromEntries_def)
qed

lemma fold_add_calories: "fold (\<lambda>cd s. s + calories cd) cds s0 = s0 + sum_list (map calories cds)"
  by (induction cds arbitrary: s0) auto

lemma length_getCurrentWeekDates: "length (getCurrentWeekDates utc today) = 7"
  by (simp add: getCurrentWeekDates_def)

lemma getCurrentWeekDates_not_Nil: "getCurrentWeekDates utc today \<noteq> []"
  using length_getCurrentWeekDates [of utc today] by auto

lemma set_getCurrentWeekDates:
  "d \<in> set (getCurrentWeekDates utcDates today) \<longleftrightarrow> today \<le> d \<and> d < today + 7"
proof
  assume "d \<in> set (getCurrentWeekDates utcDates today)"
  then show "today \<le> d \<and> d < today + 7"
    by (auto simp: getCurrentWeekDates_def utcDates_def)
next
  assume h: "today \<le> d \<and> d < today + 7"
  show "d \<in> set (getCurrentWeekDates utcDates today)"
    unfolding getCurrentWeekDates_def set_map set_upt
    by (rule image_eqI [where x = "nat (d - today)"]) (use h in \<open>auto simp: utcDates_def\<close>)
qed

lemma week_from_day_0: "getCurrentWeekDates utcDates 0 = [0, 1, 2, 3, 4, 5, 6]"
  by (simp add: getCurrentWeekDates_def utcDates_def upt_rec [of _ 7] upt_rec [of _ "Suc _"])

lemma Math_round_div_bounds:
  assumes "0 < b"
  shows "2 * b * Math_round_div a b \<le> 2 * a + b" and "2 * a + b < 2 * b * Math_round_div a b + 2 * b"
proof -
  have pos: "0 < 2 * b" using assms by simp
  have eq: "2 * a + b = 2 * b * ((2 * a + b) div (2 * b)) + (2 * a + b) mod (2 * b)"
    by simp
  have "0 \<le> (2 * a + b) mod (2 * b)" and "(2 * a + b) mod (2 * b) < 2 * b"
    using pos by simp_all
  then show "2 * b * Math_round_div a b \<le> 2 * a + b"
    and "2 * a + b < 2 * b * Math_round_div a b + 2 * b"
    using eq unfolding Math_round_div_def by linarith+
qed

lemma effective_no_cheat:
  "cdo = None \<or> cdo = Some [] \<Longrightarrow>
   effectiveCaloriesPerDay cdo goal W d = (if d \<in> set W then Some goal else None)"
  by (auto simp: effectiveCaloriesPerDay_def fold_upd_lookup)

lemma effective_cheat:
  "cds \<noteq> [] \<Longrightarrow>
   effectiveCaloriesPerDay (Some cds) goal W d =
     (if d \<in> set W
      then Some (or_else (map_of (rev (map (\<lambda>cd. (date cd, calories cd)) cds)) d)
                   (normalDayCals cds goal W))
      else None)"
  by (simp add: effectiveCaloriesPerDay_def fold_upd_lookup fromEntries_map_of Let_def)

lemma effective_defined:
  assumes "d \<in> set W"
  shows "\<exists>v. effectiveCaloriesPerDay cdo goal W d = Some v"
proof (cases "cdo = None \<or> cdo = Some []")
  case True
  then show ?thesis using assms by (simp add: effective_no_cheat)
next
  case False
  then obtain cds where "cdo = Some cds" and "cds \<noteq> []" by auto
  then show ?thesis using assms by (simp add: effective_cheat)
qed


lemma cheatMap_no_entry:
  "d \<notin> date ` set cds \<Longrightarrow> map_of (rev (map (\<lambda>cd. (date cd, calories cd)) cds)) d = None"
  by (force simp: map_of_eq_None_iff)

lemma normalDayCals_week:
  "normalDayCals cds goal (getCurrentWeekDates utc today) =
     (if 0 < 7 - int (length cds)
      then Math_round_div (7 * goal - sum_list (map calories cds)) (7 - int (length cds))
      else goal)"
  by (simp add: normalDayCals_def Let_def fold_add_calories length_getCurrentWeekDates)

section \<open>The calorie map of the week\<close>




section \<open>The total of the week\<close>

lemma length_non_cheat:
  assumes "distinct W" and "distinct (map date cds)" and "date ` set cds \<subseteq> set W"
  shows "length (filter (\<lambda>d. d \<notin> date ` set cds) W) = length W - length cds"
proof -
  have "length (filter (\<lambda>d. d \<notin> date ` set cds) W) = card (set W - date ` set cds)"
    using assms(1) by (simp add: distinct_length_filter Diff_eq Int_commute Collect_neg_eq
        Collect_mem_eq)
  also have "\<dots> = card (set W) - card (date ` set cds)"
    using assms(3) by (simp add: card_Diff_subset)
  also have "card (date ` set cds) = length cds"
    using assms(2) distinct_card [of "map date cds"] by simp
  finally show ?thesis using assms(1) by (simp add: distinct_card)
qed

lemma map_const_Some:
  "\<forall>d \<in> set ds. f d = Some v \<Longrightarrow> map f ds = map Some (replicate (length ds) v)"
  by (induction ds) auto

lemma round_error_le:
  assumes "0 < n"
  shows "\<bar>n * Math_round_div x n - x\<bar> \<le> n"
proof -
  have "2 * n * Math_round_div x n \<le> 2 * x + n"
    and "2 * x + n < 2 * n * Math_round_div x n + 2 * n"
    using Math_round_div_bounds [OF assms, of x] by simp_all
  then show ?thesis using assms by (simp add: abs_le_iff algebra_simps)
qed

text \<open>
  C2, as stated, fails with a goal of 2000 in three ways. When all seven days are cheat
  days of 3000 each, there is no non-cheat day, every day keeps its override, and the
  literal total 21000 is not \<open>7 * 2000\<close>, although no rounding error is allowed. When the
  one cheat day of 3000 is day 30, outside the week, all seven days are non-cheat days of
  1833 each, and the total 15831 is off by more than 7. When day 0 is listed twice as a
  cheat day of 3000, the six other days get 1600 each, and the total 15600 is off by more
  than 6. When the computed dates have date 3 twice (a clock change in the week) and
  date 3 is the one cheat day of 3000, the five non-cheat dates get 1833 each, and the
  total 12165 is off by more than 5.
\<close>

theorem weekly_total_counterexample:
  "(set (getCurrentWeekDates utcDates 0) \<subseteq> date ` set sevenCheatDays
    \<and> map (effectiveCaloriesPerDay (Some sevenCheatDays) 2000 (getCurrentWeekDates utcDates 0))
          (getCurrentWeekDates utcDates 0)
        = map Some [3000, 3000, 3000, 3000, 3000, 3000, 3000]
    \<and> \<not> \<bar>0 + sum_list (map calories sevenCheatDays) - 7 * 2000\<bar> \<le> 0)
   \<and> (set (getCurrentWeekDates utcDates 0) \<inter> date ` set [\<lparr>date = 30, calories = 3000\<rparr>] = {}
    \<and> map (effectiveCaloriesPerDay (Some [\<lparr>date = 30, calories = 3000\<rparr>]) 2000
             (getCurrentWeekDates utcDates 0)) (getCurrentWeekDates utcDates 0)
        = map Some [1833, 1833, 1833, 1833, 1833, 1833, 1833]
    \<and> \<not> \<bar>sum_list [1833, 1833, 1833, 1833, 1833, 1833, 1833]
           + sum_list (map calories [\<lparr>date = 30, calories = 3000\<rparr>]) - 7 * 2000\<bar> \<le> (7::int))
   \<and> (set (getCurrentWeekDates utcDates 0)
          - date ` set [\<lparr>date = 0, calories = 3000\<rparr>, \<lparr>date = 0, calories = 3000\<rparr>]
        = {1, 2, 3, 4, 5, 6}
    \<and> map (effectiveCaloriesPerDay
             (Some [\<lparr>date = 0, calories = 3000\<rparr>, \<lparr>date = 0, calories = 3000\<rparr>]) 2000
             (getCurrentWeekDates utcDates 0)) [1, 2, 3, 4, 5, 6]
        = map Some [1600, 1600, 1600, 1600, 1600, 1600]
    \<and> \<not> \<bar>sum_list [1600, 1600, 1600, 1600, 1600, 1600]
           + sum_list (map calories [\<lparr>date = 0, calories = 3000\<rparr>, \<lparr>date = 0, calories = 3000\<rparr>])
           - 7 * 2000\<bar> \<le> (6::int))
   \<and> (getCurrentWeekDates clockChangeDates 0 = [0, 1, 2, 3, 3, 4, 5]
    \<and> map (effectiveCaloriesPerDay (Some [\<lparr>date = 3, calories = 3000\<rparr>]) 2000
             (getCurrentWeekDates clockChangeDates 0)) [0, 1, 2, 4, 5]
        = map Some [1833, 1833, 1833, 1833, 1833]
    \<and> \<not> \<bar>sum_list [1833, 1833, 1833, 1833, 1833]
           + sum_list (map calories [\<lparr>date = 3, calories = 3000\<rparr>]) - 7 * 2000\<bar> \<le> (5::int))"
proof (intro conjI)
  show w: "getCurrentWeekDates clockChangeDates 0 = [0, 1, 2, 3, 3, 4, 5]"
    by (simp add: getCurrentWeekDates_def clockChangeDates_def upt_rec [of _ 7]
        upt_rec [of _ "Suc _"])
  show "map (effectiveCaloriesPerDay (Some [\<lparr>date = 3, calories = 3000\<rparr>]) 2000
             (getCurrentWeekDates clockChangeDates 0)) [0, 1, 2, 4, 5]
        = map Some [1833, 1833, 1833, 1833, 1833]"
    and "\<not> \<bar>sum_list [1833, 1833, 1833, 1833, 1833]
           + sum_list (map calories [\<lparr>date = 3, calories = 3000\<rparr>]) - 7 * 2000\<bar> \<le> (5::int)"
    by (simp_all add: w effectiveCaloriesPerDay_def fromEntries_def or_else_def
        normalDayCals_def Math_round_div_def)
  show "set (getCurrentWeekDates utcDates 0) \<subseteq> date ` set sevenCheatDays"
    and "map (effectiveCaloriesPerDay (Some sevenCheatDays) 2000 (getCurrentWeekDates utcDates 0))
          (getCurrentWeekDates utcDates 0)
        = map Some [3000, 3000, 3000, 3000, 3000, 3000, 3000]"
    and "\<not> \<bar>0 + sum_list (map calories sevenCheatDays) - 7 * 2000\<bar> \<le> 0"
    by (simp_all add: effectiveCaloriesPerDay_def fromEntries_def or_else_def normalDayCals_def
        Math_round_div_def week_from_day_0 sevenCheatDays_def upt_rec [of _ 7]
        upt_rec [of _ "Suc _"])
  show "set (getCurrentWeekDates utcDates 0) \<inter> date ` set [\<lparr>date = 30, calories = 3000\<rparr>] = {}"
    and "map (effectiveCaloriesPerDay (Some [\<lparr>date = 30, calories = 3000\<rparr>]) 2000
             (getCurrentWeekDates utcDates 0)) (getCurrentWeekDates utcDates 0)
        = map Some [1833, 1833, 1833, 1833, 1833, 1833, 1833]"
    and "\<not> \<bar>sum_list [1833, 1833, 1833, 1833, 1833, 1833, 1833]
           + sum_list (map calories [\<lparr>date = 30, calories = 3000\<rparr>]) - 7 * 2000\<bar> \<le> (7::int)"
    by (simp_all add: week_from_day_0 effectiveCaloriesPerDay_def fromEntries_def or_else_def
        normalDayCals_def Math_round_div_def)
  show "set (getCurrentWeekDates utcDates 0)
          - date ` set [\<lparr>date = 0, calories = 3000\<rparr>, \<lparr>date = 0, calories = 3000\<rparr>]
        = {1, 2, 3, 4, 5, 6}"
    by (auto simp: week_from_day_0)
  show "map (effectiveCaloriesPerDay
             (Some [\<lparr>date = 0, calories = 3000\<rparr>, \<lparr>date = 0, calories = 3000\<rparr>]) 2000
             (getCurrentWeekDates utcDates 0)) [1, 2, 3, 4, 5, 6]
        = map Some [1600, 1600, 1600, 1600, 1600, 1600]"
    and "\<not> \<bar>sum_list [1600, 1600, 1600, 1600, 1600, 1600]
           + sum_list (map calories [\<lparr>date = 0, calories = 3000\<rparr>, \<lparr>date = 0, calories = 3000\<rparr>])
           - 7 * 2000\<bar> \<le> (6::int)"
    by (simp_all add: week_from_day_0 effectiveCaloriesPerDay_def fromEntries_def or_else_def
        normalDayCals_def Math_round_div_def)
qed

text \<open>
  C2 (amended): without cheat days the seven targets of the week sum to exactly
  \<open>7 * goal\<close>. When the seven computed dates are pairwise different and the cheat days
  are fewer than seven, have pairwise different dates and all lie among the seven
  computed dates, the targets of the non-cheat days plus the literal overrides of the
  cheat days differ from \<open>7 * goal\<close> by at most one unit for each non-cheat day.
\<close>

theorem weekly_total:
  "(cdo = None \<or> cdo = Some [] \<longrightarrow>
      (\<exists>ts. map (effectiveCaloriesPerDay cdo goal (getCurrentWeekDates utc today))
               (getCurrentWeekDates utc today) = map Some ts
          \<and> length ts = 7
          \<and> sum_list ts = 7 * goal))
   \<and> (distinct (getCurrentWeekDates utc today)
        \<and> cds \<noteq> [] \<and> length cds < 7 \<and> distinct (map date cds)
        \<and> date ` set cds \<subseteq> set (getCurrentWeekDates utc today) \<longrightarrow>
      (\<exists>ts. map (effectiveCaloriesPerDay (Some cds) goal (getCurrentWeekDates utc today))
               (filter (\<lambda>d. d \<notin> date ` set cds) (getCurrentWeekDates utc today)) = map Some ts
          \<and> length ts = 7 - length cds
          \<and> \<bar>sum_list ts + sum_list (map calories cds) - 7 * goal\<bar> \<le> int (length ts)))"
proof (intro conjI impI)
  let ?W = "getCurrentWeekDates utc today"
  {
    assume h: "cdo = None \<or> cdo = Some []"
    have "\<forall>d \<in> set ?W. effectiveCaloriesPerDay cdo goal ?W d = Some goal"
      using h by (simp add: effective_no_cheat)
    then have "map (effectiveCaloriesPerDay cdo goal ?W) ?W = map Some (replicate 7 goal)"
      using map_const_Some [of ?W "effectiveCaloriesPerDay cdo goal ?W" goal]
      by (simp add: length_getCurrentWeekDates)
    moreover have "sum_list (replicate 7 goal) = 7 * goal"
      by (simp add: sum_list_replicate)
    ultimately show "\<exists>ts. map (effectiveCaloriesPerDay cdo goal ?W) ?W = map Some ts
        \<and> length ts = 7 \<and> sum_list ts = 7 * goal"
      by (intro exI [where x = "replicate 7 goal"]) simp
  }
  {
    assume h: "distinct ?W \<and> cds \<noteq> [] \<and> length cds < 7 \<and> distinct (map date cds)
      \<and> date ` set cds \<subseteq> set ?W"
    let ?N = "filter (\<lambda>d. d \<notin> date ` set cds) ?W"
    let ?n = "7 - int (length cds)"
    let ?r = "Math_round_div (7 * goal - sum_list (map calories cds)) ?n"
    have n: "0 < ?n" using h by simp
    have len: "length ?N = 7 - length cds"
      using h length_non_cheat [of ?W cds]
      by (simp add: length_getCurrentWeekDates)
    have "\<forall>d \<in> set ?N. effectiveCaloriesPerDay (Some cds) goal ?W d = Some ?r"
      using h n by (simp add: effective_cheat cheatMap_no_entry or_else_def normalDayCals_week)
    then have m: "map (effectiveCaloriesPerDay (Some cds) goal ?W) ?N
                    = map Some (replicate (7 - length cds) ?r)"
      using map_const_Some [of ?N "effectiveCaloriesPerDay (Some cds) goal ?W" ?r] len by simp
    have "sum_list (replicate (7 - length cds) ?r) = ?n * ?r"
      using h by (simp add: sum_list_replicate of_nat_diff)
    moreover have "\<bar>?n * ?r - (7 * goal - sum_list (map calories cds))\<bar> \<le> ?n"
      using round_error_le [OF n] .
    ultimately have e: "\<bar>sum_list (replicate (7 - length cds) ?r) + sum_list (map calories cds)
                          - 7 * goal\<bar> \<le> int (length (replicate (7 - length cds) ?r))"
      using h by (simp add: of_nat_diff algebra_simps)
    show "\<exists>ts. map (effectiveCaloriesPerDay (Some cds) goal ?W) ?N = map Some ts
        \<and> length ts = 7 - length cds
        \<and> \<bar>sum_list ts + sum_list (map calories cds) - 7 * goal\<bar> \<le> int (length ts)"
      using m e by (intro exI [where x = "replicate (7 - length cds) ?r"]) simp
  }
qed

theorem weekly_total_witness:
  "(\<exists>ts. map (effectiveCaloriesPerDay None 2000 (getCurrentWeekDates utcDates 0)) (getCurrentWeekDates utcDates 0)
            = map Some ts
        \<and> length ts = 7 \<and> sum_list ts = 7 * 2000)
   \<and> (\<exists>ts. map (effectiveCaloriesPerDay (Some [\<lparr>date = 0, calories = 3000\<rparr>]) 2000
                 (getCurrentWeekDates utcDates 0))
              (filter (\<lambda>d. d \<notin> date ` set [\<lparr>date = 0, calories = 3000\<rparr>]) (getCurrentWeekDates utcDates 0))
            = map Some ts
        \<and> length ts = 7 - length [\<lparr>date = 0, calories = 3000\<rparr>]
        \<and> \<bar>sum_list ts + sum_list (map calories [\<lparr>date = 0, calories = 3000\<rparr>]) - 7 * 2000\<bar>
             \<le> int (length ts))"
  using weekly_total [where cdo = None and goal = 2000 and today = 0 and utc = utcDates
      and cds = "[\<lparr>date = 0, calories = 3000\<rparr>]"]
  by (simp add: week_from_day_0)

section \<open>Reconciling the generated days\<close>

lemma collect_Inr:
  "collect rs = Inr xs \<Longrightarrow> length xs = length rs \<and> (\<forall>i < length rs. rs ! i = Inr (xs ! i))"
proof (induction rs arbitrary: xs)
  case Nil
  then show ?case by simp
next
  case (Cons r rs)
  then obtain x xs' where r: "r = Inr x" and c: "collect rs = Inr xs'" and xs: "xs = x # xs'"
    by (auto split: sum.splits)
  show ?case
    using Cons.IH [OF c] r xs by (auto simp: nth_Cons split: nat.splits)
qed

lemma collect_succeeds:
  "(\<forall>i < length rs. \<exists>x. rs ! i = Inr x) \<Longrightarrow> \<exists>xs. collect rs = Inr xs"
proof (induction rs)
  case Nil
  show ?case by simp
next
  case (Cons r rs)
  have "\<exists>x. (r # rs) ! 0 = Inr x" using Cons.prems by blast
  then obtain x where r: "r = Inr x" by auto
  have "\<forall>i < length rs. \<exists>x. rs ! i = Inr x"
  proof (intro allI impI)
    fix i assume "i < length rs"
    then have "\<exists>x. (r # rs) ! Suc i = Inr x" using Cons.prems by (metis Suc_less_eq length_Cons)
    then show "\<exists>x. rs ! i = Inr x" by simp
  qed
  then obtain xs where "collect rs = Inr xs" using Cons.IH by blast
  then show ?case using r by simp
qed

lemma postProcessDays_Inr:
  assumes "postProcessDays W eff days = Inr out"
  shows "length out = length days"
    and "i < length days \<Longrightarrow> postProcessDay W eff i (days ! i) = Inr (out ! i)"
proof -
  note c = collect_Inr [OF assms [unfolded postProcessDays_def]]
  show "length out = length days" using c by simp
  assume "i < length days"
  then show "postProcessDay W eff i (days ! i) = Inr (out ! i)"
    using c by (auto simp: nth_enumerate_eq)
qed

lemma postProcessDay_Object:
  "\<exists>dy'. postProcessDay W eff i (Object dy) = Inr (Object dy')"
  by (auto simp: postProcessDay_def Let_def split: option.splits)

lemma postProcessDay_beyond: "\<not> i < length W \<Longrightarrow> postProcessDay W eff i e = Inr e"
  by (simp add: postProcessDay_def)

lemma postProcessDays_succeeds:
  assumes "\<forall>i < length days. i < length W \<longrightarrow> (\<exists>dy. days ! i = Object dy)"
  shows "\<exists>out. postProcessDays W eff days = Inr out"
  unfolding postProcessDays_def
proof (rule collect_succeeds, intro allI impI)
  fix i
  assume "i < length (map (\<lambda>(index, e). postProcessDay W eff index e) (enumerate 0 days))"
  then have i: "i < length days" by simp
  show "\<exists>x. map (\<lambda>(index, e). postProcessDay W eff index e) (enumerate 0 days) ! i = Inr x"
  proof (cases "i < length W")
    case True
    then obtain dy where "days ! i = Object dy" using assms i by blast
    then show ?thesis using i postProcessDay_Object [of W eff i dy] by (auto simp: nth_enumerate_eq)
  next
    case False
    then show ?thesis using i by (simp add: nth_enumerate_eq postProcessDay_beyond)
  qed
qed

lemma getCurrentWeekDates_nth: "i < 7 \<Longrightarrow> getCurrentWeekDates utc today ! i = utc (today + int i)"
  by (simp add: getCurrentWeekDates_def)

lemma generateMealPlanWithAI_days:
  "content \<noteq> [] \<Longrightarrow> parse content = ParsedValue (DaysArray days) \<Longrightarrow>
   fst (generateMealPlanWithAI cdo calorieGoal utc today (Content (Some content)) parse w) =
     postProcessDays (getCurrentWeekDates utc today)
       (effectiveCaloriesPerDay cdo (userNutritionGoals_calories calorieGoal)
          (getCurrentWeekDates utc today)) days"
  by (simp add: generateMealPlanWithAI_def Let_def)

lemma postProcessDays_two_objects:
  "postProcessDays W eff [Object a, Object b] =
     (case postProcessDay W eff 0 (Object a) of
        Inl msg \<Rightarrow> Inl msg
      | Inr x \<Rightarrow> (case postProcessDay W eff 1 (Object b) of
                    Inl msg \<Rightarrow> Inl msg
                  | Inr y \<Rightarrow> Inr [x, y]))"
  by (simp add: postProcessDays_def split: sum.splits)

lemma week_targets_cheat_14000:
  "effectiveCaloriesPerDay (Some [\<lparr>date = 0, calories = 14000\<rparr>]) 2000
     (getCurrentWeekDates utcDates 0) 0 = Some 14000"
  "effectiveCaloriesPerDay (Some [\<lparr>date = 0, calories = 14000\<rparr>]) 2000
     (getCurrentWeekDates utcDates 0) 1 = Some 0"
  by (simp_all add: effective_cheat normalDayCals_week Math_round_div_def or_else_def
      set_getCurrentWeekDates)

lemma reconcile_cheat_14000:
  "postProcessDays (getCurrentWeekDates utcDates 0)
     (effectiveCaloriesPerDay (Some [\<lparr>date = 0, calories = 14000\<rparr>]) 2000
        (getCurrentWeekDates utcDates 0)) [Object generatedDay, Object generatedDay]
   = Inr [Object (generatedDay\<lparr>day_date := Some 0, daily_calorie_target := Some 14000\<rparr>),
          Object (generatedDay\<lparr>day_date := Some 1, daily_calorie_target := Some 1800\<rparr>)]"
  by (simp add: postProcessDays_two_objects postProcessDay_def Let_def week_targets_cheat_14000
      getCurrentWeekDates_nth length_getCurrentWeekDates utcDates_def generatedDay_def)

text \<open>
  C9, as stated, fails when the derived target of a day is 0: with the default goal of 2000
  and today (day 0) a cheat day of 14000 kcal, the derived target of day 1 is
  \<open>round(0 / 6) = 0\<close>, and the generated target 1800 of the second day is preserved.
\<close>

theorem reconcile_zero_target_counterexample:
  "effectiveCaloriesPerDay (Some [\<lparr>date = 0, calories = 14000\<rparr>]) (userNutritionGoals_calories None)
      (getCurrentWeekDates utcDates 0) 1 = Some 0
   \<and> fst (generateMealPlanWithAI (Some [\<lparr>date = 0, calories = 14000\<rparr>]) None utcDates 0
            (Content (Some ''{}'')) parseTwoDays freshWorld)
       = Inr [Object (generatedDay\<lparr>day_date := Some 0, daily_calorie_target := Some 14000\<rparr>),
              Object (generatedDay\<lparr>day_date := Some 1, daily_calorie_target := Some 1800\<rparr>)]"
proof -
  have g: "userNutritionGoals_calories None = 2000"
    by (simp add: userNutritionGoals_calories_def)
  have "fst (generateMealPlanWithAI (Some [\<lparr>date = 0, calories = 14000\<rparr>]) None utcDates 0
            (Content (Some ''{}'')) parseTwoDays freshWorld)
       = postProcessDays (getCurrentWeekDates utcDates 0)
            (effectiveCaloriesPerDay (Some [\<lparr>date = 0, calories = 14000\<rparr>]) 2000
               (getCurrentWeekDates utcDates 0)) [Object generatedDay, Object generatedDay]"
    using generateMealPlanWithAI_days [of "''{}''" parseTwoDays
        "[Object generatedDay, Object generatedDay]"]
    by (simp add: parseTwoDays_def g)
  then show ?thesis
    using week_targets_cheat_14000(2) g reconcile_cheat_14000 by simp
qed

text \<open>
  C9 (amended): when the provider returns a document whose \<open>days\<close> is an array with
  objects at the indices below 7, plan generation succeeds with as many days; for every
  index \<open>i\<close> below 7 the date of the \<open>i\<close>-th day is overwritten with the \<open>i\<close>-th computed
  date, whatever the day contains, and its calorie target is overwritten with the derived
  value for that date whenever that value is not 0; the entries from index 7 on are
  returned as generated.
\<close>

theorem days_reconciled_by_position:
  "content \<noteq> [] \<and> parse content = ParsedValue (DaysArray days)
     \<and> (\<forall>i < length days. i < 7 \<longrightarrow> (\<exists>dy. days ! i = Object dy)) \<Longrightarrow>
   \<exists>out. fst (generateMealPlanWithAI cdo calorieGoal utc today (Content (Some content)) parse w)
            = Inr out
     \<and> length out = length days
     \<and> (\<forall>i < length days.
          (i < 7 \<longrightarrow>
             (\<exists>dy dy'. days ! i = Object dy \<and> out ! i = Object dy'
                \<and> day_date dy' = Some (getCurrentWeekDates utc today ! i)
                \<and> (\<exists>v. effectiveCaloriesPerDay cdo (userNutritionGoals_calories calorieGoal)
                           (getCurrentWeekDates utc today) (getCurrentWeekDates utc today ! i) = Some v
                      \<and> (v \<noteq> 0 \<longrightarrow> daily_calorie_target dy' = Some v))
                \<and> isCheatDay dy' = isCheatDay dy
                \<and> meals dy' = meals dy))
          \<and> (7 \<le> i \<longrightarrow> out ! i = days ! i))"
proof -
  assume h: "content \<noteq> [] \<and> parse content = ParsedValue (DaysArray days)
     \<and> (\<forall>i < length days. i < 7 \<longrightarrow> (\<exists>dy. days ! i = Object dy))"
  let ?W = "getCurrentWeekDates utc today"
  let ?eff = "effectiveCaloriesPerDay cdo (userNutritionGoals_calories calorieGoal) ?W"
  have "\<forall>i < length days. i < length ?W \<longrightarrow> (\<exists>dy. days ! i = Object dy)"
    using h by (simp add: length_getCurrentWeekDates)
  then obtain out where out: "postProcessDays ?W ?eff days = Inr out"
    using postProcessDays_succeeds by blast
  have r: "fst (generateMealPlanWithAI cdo calorieGoal utc today (Content (Some content)) parse w)
             = Inr out"
    using h out generateMealPlanWithAI_days by simp
  note pp = postProcessDays_Inr [OF out]
  have "(i < 7 \<longrightarrow>
             (\<exists>dy dy'. days ! i = Object dy \<and> out ! i = Object dy'
                \<and> day_date dy' = Some (?W ! i)
                \<and> (\<exists>v. ?eff (?W ! i) = Some v \<and> (v \<noteq> 0 \<longrightarrow> daily_calorie_target dy' = Some v))
                \<and> isCheatDay dy' = isCheatDay dy
                \<and> meals dy' = meals dy))
          \<and> (7 \<le> i \<longrightarrow> out ! i = days ! i)" if i: "i < length days" for i
  proof (intro conjI impI)
    assume "7 \<le> i"
    then show "out ! i = days ! i"
      using pp(2) [OF i] by (simp add: postProcessDay_def length_getCurrentWeekDates)
  next
    assume i7: "i < 7"
    then obtain dy where dy: "days ! i = Object dy" using h i by blast
    have "?W ! i \<in> set ?W" using i7 by (simp add: length_getCurrentWeekDates)
    then obtain v where v: "?eff (?W ! i) = Some v"
      using effective_defined by blast
    let ?dy' = "if v \<noteq> 0 then dy\<lparr>day_date := Some (?W ! i), daily_calorie_target := Some v\<rparr>
                else dy\<lparr>day_date := Some (?W ! i)\<rparr>"
    have "out ! i = Object ?dy'"
      using pp(2) [OF i] dy v i7
      by (cases "v = 0") (auto simp: postProcessDay_def length_getCurrentWeekDates Let_def)
    then show "\<exists>dy dy'. days ! i = Object dy \<and> out ! i = Object dy'
                \<and> day_date dy' = Some (?W ! i)
                \<and> (\<exists>v. ?eff (?W ! i) = Some v \<and> (v \<noteq> 0 \<longrightarrow> daily_calorie_target dy' = Some v))
                \<and> isCheatDay dy' = isCheatDay dy
                \<and> meals dy' = meals dy"
      using dy v by (intro exI [where x = dy] exI [where x = ?dy']) simp
  qed
  note at_index = this
  show ?thesis
    by (rule exI [where x = out], intro conjI)
      (use r at_index pp(1) in \<open>blast+\<close>)
qed

theorem days_reconciled_by_position_witness:
  "''{}'' \<noteq> [] \<and> parseTwoDays ''{}'' = ParsedValue (DaysArray [Object generatedDay, Object generatedDay])
   \<and> (\<exists>out. fst (generateMealPlanWithAI None None utcDates 0 (Content (Some ''{}'')) parseTwoDays
                    freshWorld) = Inr out
         \<and> length out = 2
         \<and> (\<exists>dy'. out ! 1 = Object dy' \<and> day_date dy' = Some 1
                \<and> daily_calorie_target dy' = Some 2000))"
proof -
  have h: "''{}'' \<noteq> [] \<and> parseTwoDays ''{}'' = ParsedValue (DaysArray [Object generatedDay, Object generatedDay])
     \<and> (\<forall>i < length [Object generatedDay, Object generatedDay]. i < 7 \<longrightarrow>
          (\<exists>dy. [Object generatedDay, Object generatedDay] ! i = Object dy))"
    by (simp add: parseTwoDays_def nth_Cons split: nat.splits)
  have e: "effectiveCaloriesPerDay None (userNutritionGoals_calories None)
             (getCurrentWeekDates utcDates 0) (getCurrentWeekDates utcDates 0 ! 1) = Some 2000"
    by (simp add: effective_no_cheat week_from_day_0 userNutritionGoals_calories_def)
  obtain out where
    o: "fst (generateMealPlanWithAI None None utcDates 0 (Content (Some ''{}'')) parseTwoDays
              freshWorld) = Inr out"
    and l: "length out = length [Object generatedDay, Object generatedDay]"
    and a: "\<forall>i < length [Object generatedDay, Object generatedDay].
          (i < 7 \<longrightarrow>
             (\<exists>dy dy'. [Object generatedDay, Object generatedDay] ! i = Object dy
                \<and> out ! i = Object dy'
                \<and> day_date dy' = Some (getCurrentWeekDates utcDates 0 ! i)
                \<and> (\<exists>v. effectiveCaloriesPerDay None (userNutritionGoals_calories None)
                           (getCurrentWeekDates utcDates 0) (getCurrentWeekDates utcDates 0 ! i) = Some v
                      \<and> (v \<noteq> 0 \<longrightarrow> daily_calorie_target dy' = Some v))
                \<and> isCheatDay dy' = isCheatDay dy
                \<and> meals dy' = meals dy))
          \<and> (7 \<le> i \<longrightarrow> out ! i = [Object generatedDay, Object generatedDay] ! i)"
    using h days_reconciled_by_position [where content = "''{}''" and parse = parseTwoDays
        and days = "[Object generatedDay, Object generatedDay]" and cdo = None
        and calorieGoal = None and utc = utcDates and today = 0 and w = freshWorld]
    by blast
  have "\<exists>dy'. out ! 1 = Object dy' \<and> day_date dy' = Some 1 \<and> daily_calorie_target dy' = Some 2000"
    using a [rule_format, of 1] e by (auto simp: week_from_day_0)
  then show ?thesis using h o l by auto
qed



text \<open>For comparison, a provider answer whose second day is \<^verbatim>\<open>null\<close>: plan generation fails.\<close>

lemma null_day_example:
  "fst (generateMealPlanWithAI None None utcDates 0 (Content (Some ''{}'')) parseNullDay freshWorld)
     = Inl ''Cannot set properties of null (setting 'date')''"
  by (simp add: generateMealPlanWithAI_def Let_def parseNullDay_def postProcessDays_def
      postProcessDay_def length_getCurrentWeekDates getCurrentWeekDates_not_Nil
      effective_no_cheat week_from_day_0 userNutritionGoals_calories_def)

section \<open>The polling loop\<close>

lemma no_completed_jobs: "filter (\<lambda>(jobId, p). is_undefined p) al = []"
  by (induction al) (auto simp: is_undefined_def)


lemma settle_facts:
  "length (activeJobs (fst (settle s jobId resolved))) \<le> length (activeJobs s)"
  "distinct (map fst (activeJobs s)) \<Longrightarrow> distinct (map fst (activeJobs (fst (settle s jobId resolved))))"
  "isShuttingDown (fst (settle s jobId resolved)) = isShuttingDown s"
  "jobId \<notin> fst ` set (activeJobs (fst (settle s jobId resolved)))"
  by (simp_all add: settle_def length_delete_le distinct_delete delete_notin_dom)

lemma settleAll_facts:
  "length (activeJobs (fst (settleAll s meanwhile))) \<le> length (activeJobs s)
   \<and> (distinct (map fst (activeJobs s)) \<longrightarrow> distinct (map fst (activeJobs (fst (settleAll s meanwhile)))))
   \<and> isShuttingDown (fst (settleAll s meanwhile)) = isShuttingDown s"
proof (induction meanwhile arbitrary: s)
  case Nil
  show ?case by simp
next
  case (Cons jr rest)
  obtain jobId resolved where jr: "jr = (jobId, resolved)" by (cases jr)
  obtain s1 log1 where s1: "settle s jobId resolved = (s1, log1)" by (cases "settle s jobId resolved")
  obtain s2 log2 where s2: "settleAll s1 rest = (s2, log2)" by (cases "settleAll s1 rest")
  have r: "fst (settleAll s (jr # rest)) = s2"
    using jr s1 s2 by simp
  show ?case
    unfolding r using Cons.IH [of s1] settle_facts(1-3) [of s jobId resolved] s1 s2
    by auto
qed

lemma loopBody_free:
  assumes "int (length (activeJobs s)) < maxConcurrentJobs config"
  shows "loopBody config s (RpcError e) meanwhile
           = (fst (settleAll s meanwhile),
              ClaimAttempt # snd (settleAll s meanwhile)
                @ [LogError ''Error getting next job'', Sleep (pollIntervalMs config)])"
    and "loopBody config s (RpcThrows e) meanwhile
           = (fst (settleAll s meanwhile),
              ClaimAttempt # snd (settleAll s meanwhile)
                @ [LogError ''Exception getting next job'', Sleep (pollIntervalMs config)])"
    and "loopBody config s (RpcData None) meanwhile
           = (fst (settleAll s meanwhile),
              ClaimAttempt # snd (settleAll s meanwhile) @ [Sleep (pollIntervalMs config)])"
    and "loopBody config s (RpcData (Some [])) meanwhile
           = (fst (settleAll s meanwhile),
              ClaimAttempt # snd (settleAll s meanwhile) @ [Sleep (pollIntervalMs config)])"
    and "loopBody config s (RpcData (Some (job # rest))) meanwhile
           = ((fst (settleAll s meanwhile))
                \<lparr>activeJobs := AList.update (job_id job) Promise
                                (activeJobs (fst (settleAll s meanwhile)))\<rparr>,
              ClaimAttempt # snd (settleAll s meanwhile)
                @ [Dispatch (job_id job), Sleep (pollIntervalMs config)])"
  using assms
  by (simp_all add: loopBody_def getNextJob_def no_completed_jobs split: prod.splits)










text \<open>
  C7, as stated, fails: with a poll interval of 1000 ms a claim that throws is logged and
  followed by a wait of 1000 ms, the normal interval, and not of 5 times that interval.
\<close>

theorem claim_failure_backoff_counterexample:
  "snd (step defaultConfig newJobProcessor (Pass (RpcThrows ''fetch failed'') []))
     = [ClaimAttempt, LogError ''Exception getting next job'', Sleep 1000]
   \<and> pollIntervalMs defaultConfig = 1000
   \<and> Sleep (5 * pollIntervalMs defaultConfig)
       \<notin> set (snd (step defaultConfig newJobProcessor (Pass (RpcThrows ''fetch failed'') [])))"
  by (simp add: step_def loopBody_free newJobProcessor_def defaultConfig_def)

text \<open>
  C7 (amended): when a claim attempt fails, by an error result or by an exception, the
  pass logs the failure, leaves the processor as a pass without available work does,
  and then waits the configured normal poll interval; the loop is not terminated.
\<close>

theorem claim_failure_is_no_work:
  "\<not> isShuttingDown s \<and> int (length (activeJobs s)) < maxConcurrentJobs config \<Longrightarrow>
   step config s (Pass (RpcError e) meanwhile)
     = (fst (step config s (Pass (RpcData None) meanwhile)),
        ClaimAttempt # snd (settleAll s meanwhile)
          @ [LogError ''Error getting next job'', Sleep (pollIntervalMs config)])
   \<and> step config s (Pass (RpcThrows e) meanwhile)
     = (fst (step config s (Pass (RpcData None) meanwhile)),
        ClaimAttempt # snd (settleAll s meanwhile)
          @ [LogError ''Exception getting next job'', Sleep (pollIntervalMs config)])
   \<and> step config s (Pass (RpcData None) meanwhile)
     = (fst (settleAll s meanwhile),
        ClaimAttempt # snd (settleAll s meanwhile) @ [Sleep (pollIntervalMs config)])
   \<and> step config s (Pass (RpcError e) [])
     = (s, [ClaimAttempt, LogError ''Error getting next job'', Sleep (pollIntervalMs config)])
   \<and> step config s (Pass (RpcThrows e) [])
     = (s, [ClaimAttempt, LogError ''Exception getting next job'', Sleep (pollIntervalMs config)])
   \<and> \<not> isShuttingDown (fst (step config s (Pass (RpcError e) meanwhile)))
   \<and> \<not> isShuttingDown (fst (step config s (Pass (RpcThrows e) meanwhile)))"
proof -
  assume h: "\<not> isShuttingDown s \<and> int (length (activeJobs s)) < maxConcurrentJobs config"
  have "isShuttingDown (fst (settleAll s meanwhile)) = isShuttingDown s"
    using settleAll_facts by blast
  then show ?thesis
    using h by (simp add: step_def loopBody_free)
qed

theorem claim_failure_is_no_work_witness:
  "\<not> isShuttingDown newJobProcessor
   \<and> int (length (activeJobs newJobProcessor)) < maxConcurrentJobs defaultConfig
   \<and> step defaultConfig newJobProcessor (Pass (RpcError ''timeout'') [])
       = (newJobProcessor, [ClaimAttempt, LogError ''Error getting next job'', Sleep 1000])
   \<and> step defaultConfig newJobProcessor (Pass (RpcData None) [])
       = (newJobProcessor, [ClaimAttempt, Sleep 1000])"
proof -
  have h: "\<not> isShuttingDown newJobProcessor
      \<and> int (length (activeJobs newJobProcessor)) < maxConcurrentJobs defaultConfig"
    by (simp add: newJobProcessor_def defaultConfig_def)
  have p: "pollIntervalMs defaultConfig = 1000"
    by (simp add: defaultConfig_def)
  show ?thesis
    using h p claim_failure_is_no_work [OF h, of "''timeout''" "[]"] by simp
qed

section \<open>Meal images\<close>

lemma defaultImage_cases:
  "defaultImage t = Inherited t \<or> (\<exists>u \<in> fallbackImages. defaultImage t = Url u)"
proof (cases "map_of defaultImagesByType t")
  case None
  then show ?thesis by (simp add: defaultImage_def fallbackImages_def)
next
  case (Some u)
  then have "(t, u) \<in> set defaultImagesByType" by (rule map_of_SomeD)
  then have "u \<in> snd ` set defaultImagesByType" by force
  then show ?thesis using Some by (simp add: defaultImage_def fallbackImages_def)
qed

lemma searchUrls_Nil [simp]: "searchUrls [] = []"
  by (simp add: searchUrls_def map_filter_simps)

lemma searchUrls_default [simp]: "searchUrls (defaultImage t # imgs) = searchUrls imgs"
  using defaultImage_cases [of t] by (auto simp: searchUrls_def map_filter_simps)

lemma searchUrls_Url:
  "searchUrls (Url u # imgs) = (if u \<notin> fallbackImages then u # searchUrls imgs else searchUrls imgs)"
  by (simp add: searchUrls_def map_filter_simps)

lemma searchUrls_append: "searchUrls (xs @ ys) = searchUrls xs @ searchUrls ys"
  by (simp add: searchUrls_def map_filter_def)

lemma firstUnused_fresh: "firstUnused rs used = Some u \<Longrightarrow> u \<notin> used"
  by (induction rs) (auto split: option.splits if_splits)

lemma getMealImageUrl_result:
  assumes "getMealImageUrl key search n t k w = (img, w')"
  shows "usedImageUrls w \<subseteq> usedImageUrls w'"
    and "img = defaultImage t \<or> (\<exists>u. img = Url u \<and> u \<notin> usedImageUrls w \<and> u \<in> usedImageUrls w')"
  using assms
  by (auto simp: getMealImageUrl_def Let_def
      split: if_splits response.splits option.splits dest: firstUnused_fresh)

lemma imageRequest_image_update [simp]: "imageRequest cheat (m\<lparr>image := x\<rparr>) = imageRequest cheat m"
  by (simp add: imageRequest_def)

lemma mealImages_simps:
  "mealImages cheat [] = []"
  "mealImages cheat (Null # es) = mealImages cheat es"
  "mealImages cheat (Primitive v # es) = mealImages cheat es"
  "imageRequest cheat m = None \<Longrightarrow> mealImages cheat (Object m # es) = mealImages cheat es"
  "imageRequest cheat m \<noteq> None \<Longrightarrow>
     mealImages cheat (Object (m\<lparr>image := Some img\<rparr>) # es) = img # mealImages cheat es"
  by (simp_all add: mealImages_def entryImage_def map_filter_simps)

lemma fetchMeals_images:
  assumes "fetchMeals key search cheat es w = (Inr es', w')"
  shows "usedImageUrls w \<subseteq> usedImageUrls w'
     \<and> distinct (searchUrls (mealImages cheat es'))
     \<and> set (searchUrls (mealImages cheat es')) \<inter> usedImageUrls w = {}
     \<and> set (searchUrls (mealImages cheat es')) \<subseteq> usedImageUrls w'"
  using assms
proof (induction es arbitrary: w es' w')
  case Nil
  then show ?case by (auto simp: mealImages_simps)
next
  case (Cons e es)
  show ?case
  proof (cases e)
    case Null
    then show ?thesis using Cons.prems by simp
  next
    case (Primitive v)
    then obtain es2 where rec: "fetchMeals key search cheat es w = (Inr es2, w')"
      and out: "es' = Primitive v # es2"
      using Cons.prems by (auto split: prod.splits sum.splits)
    show ?thesis using Cons.IH [OF rec] out by (simp add: mealImages_simps)
  next
    case (Object m)
    show ?thesis
    proof (cases "imageRequest cheat m")
      case None
      then obtain es2 where rec: "fetchMeals key search cheat es w = (Inr es2, w')"
        and out: "es' = Object m # es2"
        using Cons.prems Object by (auto split: prod.splits sum.splits)
      show ?thesis using Cons.IH [OF rec] out None by (simp add: mealImages_simps)
    next
      case (Some r)
      obtain n t k where r: "r = (n, t, k)" by (cases r)
      obtain img w1 where g: "getMealImageUrl key search n t k w = (img, w1)"
        by (cases "getMealImageUrl key search n t k w")
      obtain es2 where rec: "fetchMeals key search cheat es w1 = (Inr es2, w')"
        and out: "es' = Object (m\<lparr>image := Some img\<rparr>) # es2"
        using Cons.prems Object Some r g by (auto split: prod.splits sum.splits)
      have imgs: "mealImages cheat es' = img # mealImages cheat es2"
        using out Some by (simp add: mealImages_simps)
      note ih = Cons.IH [OF rec]
      note gr = getMealImageUrl_result [OF g]
      consider "img = defaultImage t"
        | u where "img = Url u" "u \<notin> usedImageUrls w" "u \<in> usedImageUrls w1"
        using gr(2) by blast
      then show ?thesis
      proof cases
        case 1
        then show ?thesis using ih gr(1) imgs by auto
      next
        case 2
        then show ?thesis using ih gr(1) imgs by (auto simp: searchUrls_Url)
      qed
    qed
  qed
qed

lemma assignedImages_simps:
  "assignedImages [] = []"
  "assignedImages (Null # ds) = assignedImages ds"
  "assignedImages (Primitive v # ds) = assignedImages ds"
  "meals dy = None \<Longrightarrow> assignedImages (Object dy # ds) = assignedImages ds"
  "assignedImages (Object (dy\<lparr>meals := Some ms\<rparr>) # ds)
     = mealImages (isCheatDay dy) ms @ assignedImages ds"
  by (simp_all add: assignedImages_def)

lemma fetchMealImages_images:
  assumes "fetchMealImages key search days w = (Inr days', w')"
  shows "usedImageUrls w \<subseteq> usedImageUrls w'
     \<and> distinct (searchUrls (assignedImages days'))
     \<and> set (searchUrls (assignedImages days')) \<inter> usedImageUrls w = {}
     \<and> set (searchUrls (assignedImages days')) \<subseteq> usedImageUrls w'"
  using assms
proof (induction days arbitrary: w days' w')
  case Nil
  then show ?case by (auto simp: assignedImages_simps)
next
  case (Cons e ds)
  show ?case
  proof (cases e)
    case Null
    then show ?thesis using Cons.prems by simp
  next
    case (Primitive v)
    then obtain ds2 where rec: "fetchMealImages key search ds w = (Inr ds2, w')"
      and out: "days' = Primitive v # ds2"
      using Cons.prems by (auto split: prod.splits sum.splits)
    show ?thesis using Cons.IH [OF rec] out by (simp add: assignedImages_simps)
  next
    case (Object dy)
    show ?thesis
    proof (cases "meals dy")
      case None
      then obtain ds2 where rec: "fetchMealImages key search ds w = (Inr ds2, w')"
        and out: "days' = Object dy # ds2"
        using Cons.prems Object by (auto split: prod.splits sum.splits)
      show ?thesis using Cons.IH [OF rec] out None by (simp add: assignedImages_simps)
    next
      case (Some ms)
      then obtain ms1 w1 ds2 where f: "fetchMeals key search (isCheatDay dy) ms w = (Inr ms1, w1)"
        and rec: "fetchMealImages key search ds w1 = (Inr ds2, w')"
        and out: "days' = Object (dy\<lparr>meals := Some ms1\<rparr>) # ds2"
        using Cons.prems Object by (auto split: prod.splits sum.splits)
      have imgs: "searchUrls (assignedImages days')
          = searchUrls (mealImages (isCheatDay dy) ms1) @ searchUrls (assignedImages ds2)"
        using out by (simp add: assignedImages_simps searchUrls_append)
      note ih = Cons.IH [OF rec]
      note fm = fetchMeals_images [OF f]
      show ?thesis
        unfolding imgs distinct_append set_append
        using ih fm by blast
    qed
  qed
qed

lemmas example_run_defs =
  generateMealPlan_def job1_def freshWorld_def generateMealPlanWithAI_def clearImageCache_def
  Let_def postProcessDays_def postProcessDay_def getCurrentWeekDates_nth
  getCurrentWeekDates_not_Nil effective_no_cheat set_getCurrentWeekDates utcDates_def
  userNutritionGoals_calories_def dayOf_def oatmeal_def pancakes_def imageRequest_def
  getMealImageUrl_def

lemma run_without_key:
  "fst (generateMealPlan noKeyCollaborators (payload job1) freshWorld) = Inr twoDefaultBreakfasts"
  by (simp add: example_run_defs noKeyCollaborators_def parseBreakfasts_def
      twoDefaultBreakfasts_def)

lemma run_with_key:
  "fst (generateMealPlan keyCollaborators (payload job1) freshWorld) = Inr twoPhotoBreakfasts"
  by (simp add: example_run_defs keyCollaborators_def parseSameMealTwice_def twoPhotos_def
      twoPhotoBreakfasts_def)

lemma photos_not_fallback:
  "''https://photos/a'' \<notin> fallbackImages" "''https://photos/b'' \<notin> fallbackImages"
  by (simp_all add: fallbackImages_def genericFoodImage_def defaultImagesByType_def)

text \<open>
  C3, as stated, fails on the fallback path: without an image-search key, a plan with two
  breakfasts gives both meals the default breakfast image.
\<close>

theorem image_urls_fallback_counterexample:
  "fst (generateMealPlan noKeyCollaborators (payload job1) freshWorld) = Inr twoDefaultBreakfasts
   \<and> assignedImages twoDefaultBreakfasts = [defaultImage ''Breakfast'', defaultImage ''Breakfast'']
   \<and> \<not> distinct (assignedImages twoDefaultBreakfasts)"
  by (simp add: run_without_key assignedImages_def mealImages_def entryImage_def
      map_filter_simps imageRequest_def oatmeal_def pancakes_def twoDefaultBreakfasts_def)

text \<open>
  C3 (amended): in a run of the image stage that returns a plan, and so in a pipeline run
  that is not interleaved with another job, the image URLs assigned to meals that are
  none of the fixed fallback images are pairwise different, also when a meal name
  repeats; what the fallback path assigns can be shared by meals of one plan.
\<close>

theorem search_images_distinct:
  "(fst (fetchMealImages key search days w) = Inr days' \<longrightarrow>
      distinct (searchUrls (assignedImages days')))
   \<and> (fst (generateMealPlan env p w) = Inr plan \<longrightarrow> distinct (searchUrls (assignedImages plan)))"
proof (intro conjI impI)
  show a: "distinct (searchUrls (assignedImages days'))"
    if "fst (fetchMealImages key search days w) = Inr days'" for key search days w days'
    using that fetchMealImages_images [of key search days w days' "snd (fetchMealImages key search days w)"]
    by (cases "fetchMealImages key search days w") simp
  assume "fst (generateMealPlan env p w) = Inr plan"
  then have "\<exists>days1 w1 w2.
      fetchMealImages (unsplashAccessKey env) (imageSearch env) days1 w1 = (Inr plan, w2)"
    by (auto simp: generateMealPlan_def Let_def split: prod.splits sum.splits)
  then show "distinct (searchUrls (assignedImages plan))"
    using fetchMealImages_images by blast
qed

theorem search_images_distinct_witness:
  "fst (generateMealPlan keyCollaborators (payload job1) freshWorld) = Inr twoPhotoBreakfasts
   \<and> assignedImages twoPhotoBreakfasts = [Url ''https://photos/a'', Url ''https://photos/b'']
   \<and> distinct (searchUrls (assignedImages twoPhotoBreakfasts))
   \<and> searchUrls (assignedImages twoPhotoBreakfasts) = [''https://photos/a'', ''https://photos/b'']"
proof -
  have imgs: "assignedImages twoPhotoBreakfasts = [Url ''https://photos/a'', Url ''https://photos/b'']"
    by (simp add: assignedImages_def mealImages_def entryImage_def map_filter_simps imageRequest_def
        oatmeal_def twoPhotoBreakfasts_def)
  have "distinct (searchUrls (assignedImages twoPhotoBreakfasts))"
    using search_images_distinct [where env = keyCollaborators and p = "payload job1"
        and w = freshWorld and plan = twoPhotoBreakfasts] run_with_key
    by simp
  then show ?thesis
    using imgs run_with_key photos_not_fallback by (simp add: searchUrls_Url)
qed

section \<open>Without an image-search key\<close>

text \<open>
  C8 holds of the code for the four meal types and for most other types, but not for
  every other type: without a key, a meal of type \<^verbatim>\<open>constructor\<close> does not get the
  generic default image. The lookup in the table of defaults finds the member of that
  name that every object inherits, so the meal gets that member as its image, while
  the breakfast beside it gets the breakfast default. No image search is called.
\<close>

theorem no_key_inherited_member_image:
  "unsplashAccessKey surpriseCollaborators = None
   \<and> fst (generateMealPlan surpriseCollaborators (payload job1) freshWorld) = Inr surprisePlan
   \<and> assignedImages surprisePlan
       = [Url ''https://images.unsplash.com/photo-1533089860892-a7c6f0a88666?q=80&w=800&auto=format&fit=crop'',
          Inherited ''constructor'']
   \<and> defaultImage ''constructor'' \<noteq> Url genericFoodImage
   \<and> calls (processJob surpriseCollaborators job1 freshWorld)
       = [Heartbeat ''j1'', ProfileRead ''u1'', HistoryRead ''u1'', PlanGeneration, CardGeneration,
          ArtifactWrite ''p1'' ''u1'' surprisePlan, Notification ''u1'' ''p1'',
          CompleteJob ''j1'' ''p1'']"
proof (intro conjI)
  show "unsplashAccessKey surpriseCollaborators = None"
    by (simp add: surpriseCollaborators_def)
  show "fst (generateMealPlan surpriseCollaborators (payload job1) freshWorld) = Inr surprisePlan"
    by (simp add: example_run_defs surpriseCollaborators_def parseSurprise_def surprise_def
        surprisePlan_def defaultImage_def defaultImagesByType_def objectPrototypeMembers_def)
  show "assignedImages surprisePlan
       = [Url ''https://images.unsplash.com/photo-1533089860892-a7c6f0a88666?q=80&w=800&auto=format&fit=crop'',
          Inherited ''constructor'']"
    by (simp add: assignedImages_def mealImages_def entryImage_def map_filter_simps imageRequest_def
        oatmeal_def surprise_def surprisePlan_def)
  show "defaultImage ''constructor'' \<noteq> Url genericFoodImage"
    by (simp add: defaultImage_def defaultImagesByType_def objectPrototypeMembers_def)
  show "calls (processJob surpriseCollaborators job1 freshWorld)
       = [Heartbeat ''j1'', ProfileRead ''u1'', HistoryRead ''u1'', PlanGeneration, CardGeneration,
          ArtifactWrite ''p1'' ''u1'' surprisePlan, Notification ''u1'' ''p1'',
          CompleteJob ''j1'' ''p1'']"
    by (simp add: processJob_def processMealPlanJob_def example_run_defs
        surpriseCollaborators_def parseSurprise_def surprise_def surprisePlan_def
        defaultImage_def defaultImagesByType_def objectPrototypeMembers_def)
qed

section \<open>The image set is shared by the jobs of a process\<close>

text \<open>
  C4 does not hold of the code: the set of used images is one per process. A meal of a job
  that is offered only the photo \<open>a\<close> gets that photo when the job runs alone. When two
  jobs have begun and the other job has taken photo \<open>a\<close> for one of its meals, the same
  request gets the default image: the URL recorded by one job suppresses the choice of
  the other. And when a job begins, it clears what the running job has recorded.
\<close>

theorem image_set_shared_between_jobs:
  "fst (getMealImageUrl (Some ''key'') onePhoto ''Oatmeal'' ''Breakfast'' []
          (clearImageCache freshWorld)) = Url ''https://photos/a''
   \<and> fst (getMealImageUrl (Some ''key'') onePhoto ''Oatmeal'' ''Breakfast'' []
            (snd (getMealImageUrl (Some ''key'') onePhoto ''Pancakes'' ''Breakfast'' []
                    (clearImageCache (clearImageCache freshWorld)))))
       = defaultImage ''Breakfast''
   \<and> usedImageUrls (snd (getMealImageUrl (Some ''key'') onePhoto ''Pancakes'' ''Breakfast'' []
                           (clearImageCache freshWorld))) = {''https://photos/a''}
   \<and> usedImageUrls (clearImageCache
        (snd (getMealImageUrl (Some ''key'') onePhoto ''Pancakes'' ''Breakfast'' []
                (clearImageCache freshWorld)))) = {}"
  by (simp add: getMealImageUrl_def clearImageCache_def freshWorld_def onePhoto_def Let_def)

section \<open>A plan answer without usable days\<close>

lemma processJob_generation_fails:
  assumes "job_type job = ''meal_plan_generation''"
    and "\<And>w0. generateMealPlanWithAI (cheatDays (payload job)) (profile_calorieGoal env)
           (isoDate env) (clock_today env) (plan_completion env) (JSON_parse env) w0
           = (Inl msg, w0\<lparr>calls := calls w0 @ [PlanGeneration]\<rparr>)"
  shows "calls (processJob env job w) =
     calls w @ [Heartbeat (job_id job), ProfileRead (userId (payload job)),
                HistoryRead (userId (payload job)), PlanGeneration, FailJob (job_id job) msg]"
  using assms(1)
  by (simp add: processJob_def processMealPlanJob_def generateMealPlan_def assms(2)
      clearImageCache_def Let_def)

text \<open>
  C5: when the provider's answer to the plan request has no content, cannot be parsed,
  parses to \<^verbatim>\<open>null\<close>, or parses to a document whose \<open>days\<close> is missing or no array, the
  calls of the job are the first heartbeat, the two context reads, the one plan request
  and the failure report with the cause; no artifact write and no second plan request
  is among them.
\<close>

theorem generation_failure_fails_job:
  "job_type job = ''meal_plan_generation'' \<Longrightarrow>
   (plan_completion env = Content None \<or> plan_completion env = Content (Some []) \<longrightarrow>
      calls (processJob env job w) =
        calls w @ [Heartbeat (job_id job), ProfileRead (userId (payload job)),
                   HistoryRead (userId (payload job)), PlanGeneration,
                   FailJob (job_id job) ''OpenAI returned no content''])
   \<and> (c \<noteq> [] \<and> plan_completion env = Content (Some c) \<and> JSON_parse env c = ParseThrows m \<longrightarrow>
      calls (processJob env job w) =
        calls w @ [Heartbeat (job_id job), ProfileRead (userId (payload job)),
                   HistoryRead (userId (payload job)), PlanGeneration,
                   FailJob (job_id job) (''Failed to parse AI response: '' @ m)])
   \<and> (c \<noteq> [] \<and> plan_completion env = Content (Some c) \<and> JSON_parse env c = ParsedNull m \<longrightarrow>
      calls (processJob env job w) =
        calls w @ [Heartbeat (job_id job), ProfileRead (userId (payload job)),
                   HistoryRead (userId (payload job)), PlanGeneration, FailJob (job_id job) m])
   \<and> (c \<noteq> [] \<and> plan_completion env = Content (Some c)
        \<and> (JSON_parse env c = ParsedValue DaysFalsy \<or> JSON_parse env c = ParsedValue DaysNotArray)
      \<longrightarrow>
      calls (processJob env job w) =
        calls w @ [Heartbeat (job_id job), ProfileRead (userId (payload job)),
                   HistoryRead (userId (payload job)), PlanGeneration,
                   FailJob (job_id job) ''Invalid AI response: missing days array''])"
proof (intro conjI impI)
  assume j: "job_type job = ''meal_plan_generation''"
  {
    assume "plan_completion env = Content None \<or> plan_completion env = Content (Some [])"
    then show "calls (processJob env job w) =
        calls w @ [Heartbeat (job_id job), ProfileRead (userId (payload job)),
                   HistoryRead (userId (payload job)), PlanGeneration,
                   FailJob (job_id job) ''OpenAI returned no content'']"
      by (intro processJob_generation_fails [OF j])
        (auto simp: generateMealPlanWithAI_def Let_def)
  }
  {
    assume "c \<noteq> [] \<and> plan_completion env = Content (Some c) \<and> JSON_parse env c = ParseThrows m"
    then show "calls (processJob env job w) =
        calls w @ [Heartbeat (job_id job), ProfileRead (userId (payload job)),
                   HistoryRead (userId (payload job)), PlanGeneration,
                   FailJob (job_id job) (''Failed to parse AI response: '' @ m)]"
      by (intro processJob_generation_fails [OF j])
        (auto simp: generateMealPlanWithAI_def Let_def)
  }
  {
    assume "c \<noteq> [] \<and> plan_completion env = Content (Some c) \<and> JSON_parse env c = ParsedNull m"
    then show "calls (processJob env job w) =
        calls w @ [Heartbeat (job_id job), ProfileRead (userId (payload job)),
                   HistoryRead (userId (payload job)), PlanGeneration, FailJob (job_id job) m]"
      by (intro processJob_generation_fails [OF j])
        (auto simp: generateMealPlanWithAI_def Let_def)
  }
  {
    assume "c \<noteq> [] \<and> plan_completion env = Content (Some c)
        \<and> (JSON_parse env c = ParsedValue DaysFalsy \<or> JSON_parse env c = ParsedValue DaysNotArray)"
    then show "calls (processJob env job w) =
        calls w @ [Heartbeat (job_id job), ProfileRead (userId (payload job)),
                   HistoryRead (userId (payload job)), PlanGeneration,
                   FailJob (job_id job) ''Invalid AI response: missing days array'']"
      by (intro processJob_generation_fails [OF j])
        (auto simp: generateMealPlanWithAI_def Let_def)
  }
qed

theorem generation_failure_fails_job_witness:
  "job_type job1 = ''meal_plan_generation''
   \<and> calls (processJob noDaysCollaborators job1 freshWorld) =
       [Heartbeat ''j1'', ProfileRead ''u1'', HistoryRead ''u1'', PlanGeneration,
        FailJob ''j1'' ''Invalid AI response: missing days array'']
   \<and> calls (processJob (noDaysCollaborators\<lparr>plan_completion := Content None\<rparr>) job1 freshWorld) =
       [Heartbeat ''j1'', ProfileRead ''u1'', HistoryRead ''u1'', PlanGeneration,
        FailJob ''j1'' ''OpenAI returned no content'']
   \<and> calls (processJob (noDaysCollaborators\<lparr>JSON_parse := (\<lambda>c. ParseThrows ''Unexpected token'')\<rparr>)
              job1 freshWorld) =
       [Heartbeat ''j1'', ProfileRead ''u1'', HistoryRead ''u1'', PlanGeneration,
        FailJob ''j1'' ''Failed to parse AI response: Unexpected token'']
   \<and> calls (processJob (noDaysCollaborators\<lparr>JSON_parse := (\<lambda>c. ParsedNull ''Cannot read properties of null'')\<rparr>)
              job1 freshWorld) =
       [Heartbeat ''j1'', ProfileRead ''u1'', HistoryRead ''u1'', PlanGeneration,
        FailJob ''j1'' ''Cannot read properties of null'']"
proof -
  have j: "job_type job1 = ''meal_plan_generation''"
    by (simp add: job1_def)
  have ids: "job_id job1 = ''j1''" "userId (payload job1) = ''u1''" "calls freshWorld = []"
    by (simp_all add: job1_def freshWorld_def)
  have a: "calls (processJob noDaysCollaborators job1 freshWorld) =
       [Heartbeat ''j1'', ProfileRead ''u1'', HistoryRead ''u1'', PlanGeneration,
        FailJob ''j1'' ''Invalid AI response: missing days array'']"
    using generation_failure_fails_job [OF j, where env = noDaysCollaborators and c = "''{}''"
        and w = freshWorld] ids
    by (simp add: noDaysCollaborators_def parseNoDays_def)
  have b: "calls (processJob (noDaysCollaborators\<lparr>plan_completion := Content None\<rparr>) job1 freshWorld) =
       [Heartbeat ''j1'', ProfileRead ''u1'', HistoryRead ''u1'', PlanGeneration,
        FailJob ''j1'' ''OpenAI returned no content'']"
    using generation_failure_fails_job [OF j,
        where env = "noDaysCollaborators\<lparr>plan_completion := Content None\<rparr>" and w = freshWorld] ids
    by simp
  have c: "calls (processJob (noDaysCollaborators\<lparr>JSON_parse := (\<lambda>c. ParseThrows ''Unexpected token'')\<rparr>)
              job1 freshWorld) =
       [Heartbeat ''j1'', ProfileRead ''u1'', HistoryRead ''u1'', PlanGeneration,
        FailJob ''j1'' ''Failed to parse AI response: Unexpected token'']"
    using generation_failure_fails_job [OF j,
        where env = "noDaysCollaborators\<lparr>JSON_parse := (\<lambda>c. ParseThrows ''Unexpected token'')\<rparr>"
        and c = "''{}''" and m = "''Unexpected token''" and w = freshWorld] ids
    by (simp add: noDaysCollaborators_def)
  have d: "calls (processJob (noDaysCollaborators\<lparr>JSON_parse := (\<lambda>c. ParsedNull ''Cannot read properties of null'')\<rparr>)
              job1 freshWorld) =
       [Heartbeat ''j1'', ProfileRead ''u1'', HistoryRead ''u1'', PlanGeneration,
        FailJob ''j1'' ''Cannot read properties of null'']"
    using generation_failure_fails_job [OF j,
        where env = "noDaysCollaborators\<lparr>JSON_parse := (\<lambda>c. ParsedNull ''Cannot read properties of null'')\<rparr>"
        and c = "''{}''" and m = "''Cannot read properties of null''" and w = freshWorld] ids
    by (simp add: noDaysCollaborators_def)
  show ?thesis using j a b c d by simp
qed

text \<open>
  For comparison, a job whose plan answer has days: the artifact is written, the
  notification is scheduled and the job is reported completed.
\<close>

lemma successful_job_example:
  "calls (processJob noKeyCollaborators job1 freshWorld) =
     [Heartbeat ''j1'', ProfileRead ''u1'', HistoryRead ''u1'', PlanGeneration, CardGeneration,
      ArtifactWrite ''p1'' ''u1'' twoDefaultBreakfasts, Notification ''u1'' ''p1'',
      CompleteJob ''j1'' ''p1'']"
  by (simp add: processJob_def processMealPlanJob_def example_run_defs noKeyCollaborators_def
      parseBreakfasts_def twoDefaultBreakfasts_def)

end
